theory Spec2Isabelle
  imports Main
begin

section \<open>The browser objects the capture pipeline works on\<close>

text \<open>
  The media handler classes (\<open>LiveVideoManager\<close>, \<open>LiveScreenManager\<close>,
  \<open>LiveAudioInputManager\<close>) are thin adapters over browser objects. The objects they
  mutate are made explicit here: a heap of media streams (a stream is the list of its
  tracks, its handle is its position in the heap), the video element, the canvas element,
  the list of pending animation-frame callbacks, the script-processor nodes and the console.
  A method of the classes is defined as its call run to completion, which is what a
  caller sees who awaits it. The application awaits none of its calls: there the request
  to the platform stays pending and the rest of the method runs when the platform answers,
  as a step of its own (section on the event loop).
\<close>

datatype error =
  NotAllowedError | NotFoundError | OverconstrainedError | TypeError | IndexSizeError

datatype media_kind = Videoinput | Audioinput | Display

datatype ready_state = Live | Ended

record track =
  kind :: media_kind
  device :: string
  readyState :: ready_state

record videoElement =
  srcObject :: "nat option"
  paused :: bool
  videoWidth :: nat
  videoHeight :: nat
  picture :: nat

datatype bitmap = Bitmap nat nat nat

record canvasElement =
  width :: nat
  height :: nat
  content :: "bitmap option"

datatype dataURL = DataURL string nat nat "bitmap option"

type_synonym sample = int

datatype message = ImageMessage dataURL | AudioMessage "sample list"

text \<open>
  A callback is a sink: it takes what is delivered and the messages the transport has
  accepted so far, and returns the messages accepted after the delivery. It returns
  normally.
\<close>

type_synonym 'a callback = "'a \<Rightarrow> message list \<Rightarrow> message list"

record capture =
  stream :: "nat option"

record videoManager = capture +
  onNewFrame :: "dataURL callback option"

record audioManager = capture +
  onNewAudioRecordingChunk :: "sample list callback option"

datatype manager_ref = TheLiveVideoManager | TheLiveScreenManager

datatype closure = VideoCaptureFrame manager_ref | ScreenCaptureFrame manager_ref

record scriptProcessor =
  source :: nat
  bufferSize :: nat
  numberOfInputChannels :: nat
  numberOfOutputChannels :: nat
  toDestination :: bool
  pending :: "sample list"

text \<open>
  A request to the platform for a stream that has not been answered yet, with who asked
  and for which device.
\<close>

datatype acquisition =
  StartWebcamPending manager_ref "string option"
  | StartCapturePending manager_ref
  | ConnectMicrophonePending "string option"

record world =
  videoinputs :: "string list"
  audioinputs :: "string list"
  permission :: bool
  displayPermission :: bool
  mediaStreams :: "track list list"
  videoElement :: videoElement
  canvasElement :: canvasElement
  managers :: "manager_ref \<Rightarrow> videoManager"
  liveAudioInputManager :: audioManager
  animationFrameCallbacks :: "closure list"
  scriptProcessors :: "scriptProcessor list"
  geminiLiveApi :: "message list"
  console :: "string list"
  pendingAcquisitions :: "acquisition list"

text \<open>
  A completed call either returns (\<open>Inr\<close>, the world it leaves) or throws
  (\<open>Inl\<close>, the error and the world at the throw).
\<close>

type_synonym completion = "(error \<times> world) + world"

definition andThen :: "completion \<Rightarrow> (world \<Rightarrow> completion) \<Rightarrow> completion" where
  "andThen c f = (case c of Inl e \<Rightarrow> Inl e | Inr w \<Rightarrow> f w)"

definition state_of :: "completion \<Rightarrow> world" where
  "state_of c = (case c of Inl (e, w) \<Rightarrow> w | Inr w \<Rightarrow> w)"

definition succeeded :: "completion \<Rightarrow> bool" where
  "succeeded c = (case c of Inl e \<Rightarrow> False | Inr w \<Rightarrow> True)"

definition truthy :: "'a option \<Rightarrow> bool" where
  "truthy x = (case x of None \<Rightarrow> False | Some v \<Rightarrow> True)"

subsection \<open>Platform calls\<close>

text \<open>
  \<open>deviceId ? { exact: deviceId } : undefined\<close>: \<open>null\<close> and the empty string are
  falsy, so both ask for the platform default.
\<close>

definition exactDevice :: "string option \<Rightarrow> string option" where
  "exactDevice d = (case d of None \<Rightarrow> None | Some s \<Rightarrow> if s = [] then None else Some s)"

definition newStream :: "track list \<Rightarrow> world \<Rightarrow> nat \<times> world" where
  "newStream ts w = (length (mediaStreams w), w\<lparr>mediaStreams := mediaStreams w @ [ts]\<rparr>)"

definition inputs :: "media_kind \<Rightarrow> world \<Rightarrow> string list" where
  "inputs k w = (if k = Audioinput then audioinputs w else videoinputs w)"

definition getUserMedia :: "media_kind \<Rightarrow> string option \<Rightarrow> world \<Rightarrow> (error \<times> world) + (nat \<times> world)" where
  "getUserMedia k exact w =
     (case exact of
        Some d \<Rightarrow>
          if d \<in> set (inputs k w) then
            (if permission w
             then Inr (newStream [\<lparr>kind = k, device = d, readyState = Live\<rparr>] w)
             else Inl (NotAllowedError, w))
          else Inl (OverconstrainedError, w)
      | None \<Rightarrow>
          (case inputs k w of
             [] \<Rightarrow> Inl (NotFoundError, w)
           | d # ds \<Rightarrow>
               if permission w
               then Inr (newStream [\<lparr>kind = k, device = d, readyState = Live\<rparr>] w)
               else Inl (NotAllowedError, w)))"

definition getDisplayMedia :: "world \<Rightarrow> (error \<times> world) + (nat \<times> world)" where
  "getDisplayMedia w =
     (if displayPermission w
      then Inr (newStream [\<lparr>kind = Display, device = ''screen'', readyState = Live\<rparr>] w)
      else Inl (NotAllowedError, w))"

definition track_stop :: "track \<Rightarrow> track" where
  "track_stop t = t\<lparr>readyState := Ended\<rparr>"

text \<open>\<open>stream.getTracks().forEach(track => track.stop())\<close> on the stream with handle \<open>h\<close>.\<close>

definition stopTracks :: "nat \<Rightarrow> world \<Rightarrow> world" where
  "stopTracks h w =
     (if h < length (mediaStreams w)
      then w\<lparr>mediaStreams := (mediaStreams w)[h := map track_stop (mediaStreams w ! h)]\<rparr>
      else w)"

definition set_srcObject :: "nat option \<Rightarrow> world \<Rightarrow> world" where
  "set_srcObject s w = w\<lparr>videoElement := (videoElement w)\<lparr>srcObject := s\<rparr>\<rparr>"

definition play :: "world \<Rightarrow> world" where
  "play w = w\<lparr>videoElement := (videoElement w)\<lparr>paused := False\<rparr>\<rparr>"

text \<open>Assigning a canvas dimension clears the canvas.\<close>

definition set_canvas_width :: "nat \<Rightarrow> world \<Rightarrow> world" where
  "set_canvas_width n w = w\<lparr>canvasElement := (canvasElement w)\<lparr>width := n, content := None\<rparr>\<rparr>"

definition set_canvas_height :: "nat \<Rightarrow> world \<Rightarrow> world" where
  "set_canvas_height n w = w\<lparr>canvasElement := (canvasElement w)\<lparr>height := n, content := None\<rparr>\<rparr>"

text \<open>\<open>context.drawImage(video, 0, 0, dw, dh)\<close>: the current picture of the video, scaled.\<close>

definition drawImage :: "nat \<Rightarrow> nat \<Rightarrow> world \<Rightarrow> world" where
  "drawImage dw dh w =
     w\<lparr>canvasElement := (canvasElement w)\<lparr>content := Some (Bitmap (picture (videoElement w)) dw dh)\<rparr>\<rparr>"

definition toDataURL :: "string \<Rightarrow> world \<Rightarrow> dataURL" where
  "toDataURL mime w =
     DataURL mime (width (canvasElement w)) (height (canvasElement w)) (content (canvasElement w))"

definition requestAnimationFrame :: "closure \<Rightarrow> world \<Rightarrow> world" where
  "requestAnimationFrame c w = w\<lparr>animationFrameCallbacks := animationFrameCallbacks w @ [c]\<rparr>"

definition console_error :: "string \<Rightarrow> world \<Rightarrow> world" where
  "console_error s w = w\<lparr>console := console w @ [s]\<rparr>"

definition set_stream :: "manager_ref \<Rightarrow> nat option \<Rightarrow> world \<Rightarrow> world" where
  "set_stream this s w = w\<lparr>managers := (managers w)(this := (managers w this)\<lparr>stream := s\<rparr>)\<rparr>"

section \<open>LiveVideoManager\<close>

text \<open>
  Both video classes are constructed in the application over the same video element and
  the same canvas element, so \<open>this.videoElement\<close> and \<open>this.canvasElement\<close> are the
  world's. \<open>this\<close> names the object a method runs on.

  Reading a property of a null stream and calling a null callback throw a
  \<open>TypeError\<close>: these are the \<open>None\<close> branches below, under the source's own
  truthiness guards \<open>if (this.stream)\<close> and \<open>if (this.onNewFrame)\<close>.
\<close>

definition LiveVideoManager_captureFrame :: "manager_ref \<Rightarrow> world \<Rightarrow> completion" where
  "LiveVideoManager_captureFrame this w =
     andThen
       (if videoWidth (videoElement w) > 0 \<and> videoHeight (videoElement w) > 0 then
          (let w1 = set_canvas_width (videoWidth (videoElement w)) w;
               w2 = set_canvas_height (videoHeight (videoElement w1)) w1;
               w3 = drawImage (width (canvasElement w2)) (height (canvasElement w2)) w2
           in if truthy (onNewFrame (managers w3 this)) then
                (let imageData = toDataURL ''image/jpeg'' w3
                 in case onNewFrame (managers w3 this) of
                      None \<Rightarrow> Inl (TypeError, w3)
                    | Some f \<Rightarrow> Inr (w3\<lparr>geminiLiveApi := f imageData (geminiLiveApi w3)\<rparr>))
              else Inr w3)
        else Inr w)
       (\<lambda>w'. Inr (requestAnimationFrame (VideoCaptureFrame this) w'))"

definition LiveVideoManager_captureFrames :: "manager_ref \<Rightarrow> world \<Rightarrow> completion" where
  "LiveVideoManager_captureFrames this w = LiveVideoManager_captureFrame this w"

definition LiveVideoManager_startWebcam :: "manager_ref \<Rightarrow> string option \<Rightarrow> world \<Rightarrow> completion" where
  "LiveVideoManager_startWebcam this deviceId w =
     (case (case getUserMedia Videoinput (exactDevice deviceId) w of
              Inl e \<Rightarrow> Inl e
            | Inr (s, w1) \<Rightarrow>
                (let w2 = set_stream this (Some s) w1;
                     w3 = set_srcObject (stream (managers w2 this)) w2;
                     w4 = play w3
                 in LiveVideoManager_captureFrames this w4)) of
        Inl (e, w') \<Rightarrow> Inl (e, console_error ''Error starting webcam:'' w')
      | Inr w' \<Rightarrow> Inr w')"

definition LiveVideoManager_stopWebcam :: "manager_ref \<Rightarrow> world \<Rightarrow> completion" where
  "LiveVideoManager_stopWebcam this w =
     (if truthy (stream (managers w this)) then
        (case stream (managers w this) of
           None \<Rightarrow> Inl (TypeError, w)
         | Some h \<Rightarrow> Inr (set_stream this None (set_srcObject None (stopTracks h w))))
      else Inr w)"

definition LiveVideoManager_updateWebcamDevice :: "manager_ref \<Rightarrow> string \<Rightarrow> world \<Rightarrow> completion" where
  "LiveVideoManager_updateWebcamDevice this deviceId w =
     andThen (LiveVideoManager_stopWebcam this w) (LiveVideoManager_startWebcam this (Some deviceId))"

section \<open>LiveScreenManager\<close>

definition LiveScreenManager_captureFrame :: "manager_ref \<Rightarrow> world \<Rightarrow> completion" where
  "LiveScreenManager_captureFrame this w =
     andThen
       (if videoWidth (videoElement w) > 0 \<and> videoHeight (videoElement w) > 0 then
          (let w1 = set_canvas_width (videoWidth (videoElement w)) w;
               w2 = set_canvas_height (videoHeight (videoElement w1)) w1;
               w3 = drawImage (width (canvasElement w2)) (height (canvasElement w2)) w2
           in if truthy (onNewFrame (managers w3 this)) then
                (let imageData = toDataURL ''image/jpeg'' w3
                 in case onNewFrame (managers w3 this) of
                      None \<Rightarrow> Inl (TypeError, w3)
                    | Some f \<Rightarrow> Inr (w3\<lparr>geminiLiveApi := f imageData (geminiLiveApi w3)\<rparr>))
              else Inr w3)
        else Inr w)
       (\<lambda>w'. Inr (requestAnimationFrame (ScreenCaptureFrame this) w'))"

definition LiveScreenManager_captureFrames :: "manager_ref \<Rightarrow> world \<Rightarrow> completion" where
  "LiveScreenManager_captureFrames this w = LiveScreenManager_captureFrame this w"

definition LiveScreenManager_startCapture :: "manager_ref \<Rightarrow> world \<Rightarrow> completion" where
  "LiveScreenManager_startCapture this w =
     (case (case getDisplayMedia w of
              Inl e \<Rightarrow> Inl e
            | Inr (s, w1) \<Rightarrow>
                (let w2 = set_stream this (Some s) w1;
                     w3 = set_srcObject (stream (managers w2 this)) w2;
                     w4 = play w3
                 in LiveScreenManager_captureFrames this w4)) of
        Inl (e, w') \<Rightarrow> Inl (e, console_error ''Error starting screen capture:'' w')
      | Inr w' \<Rightarrow> Inr w')"

definition LiveScreenManager_stopCapture :: "manager_ref \<Rightarrow> world \<Rightarrow> completion" where
  "LiveScreenManager_stopCapture this w =
     (if truthy (stream (managers w this)) then
        (case stream (managers w this) of
           None \<Rightarrow> Inl (TypeError, w)
         | Some h \<Rightarrow> Inr (set_stream this None (set_srcObject None (stopTracks h w))))
      else Inr w)"

section \<open>LiveAudioInputManager\<close>

text \<open>
  \<open>processAudioStream\<close> builds the graph: a source node over \<open>this.stream\<close>
  (\<open>createMediaStreamSource(null)\<close> throws), a script processor
  \<open>createScriptProcessor(4096, 1, 1)\<close>, connected to the destination.
\<close>

definition LiveAudioInputManager_processAudioStream :: "world \<Rightarrow> completion" where
  "LiveAudioInputManager_processAudioStream w =
     (case stream (liveAudioInputManager w) of
        None \<Rightarrow> Inl (TypeError, w)
      | Some s \<Rightarrow>
          Inr (w\<lparr>scriptProcessors := scriptProcessors w @
                 [\<lparr>source = s, bufferSize = 4096, numberOfInputChannels = 1,
                   numberOfOutputChannels = 1, toDestination = True, pending = []\<rparr>]\<rparr>))"

definition LiveAudioInputManager_connectMicrophone :: "string option \<Rightarrow> world \<Rightarrow> completion" where
  "LiveAudioInputManager_connectMicrophone deviceId w =
     (case (case getUserMedia Audioinput (exactDevice deviceId) w of
              Inl e \<Rightarrow> Inl e
            | Inr (s, w1) \<Rightarrow>
                LiveAudioInputManager_processAudioStream
                  (w1\<lparr>liveAudioInputManager := (liveAudioInputManager w1)\<lparr>stream := Some s\<rparr>\<rparr>)) of
        Inl (e, w') \<Rightarrow> Inl (e, console_error ''Error connecting microphone:'' w')
      | Inr w' \<Rightarrow> Inr w')"

definition LiveAudioInputManager_disconnectMicrophone :: "world \<Rightarrow> completion" where
  "LiveAudioInputManager_disconnectMicrophone w =
     (if truthy (stream (liveAudioInputManager w)) then
        (case stream (liveAudioInputManager w) of
           None \<Rightarrow> Inl (TypeError, w)
         | Some h \<Rightarrow>
             (let w1 = stopTracks h w
              in Inr (w1\<lparr>liveAudioInputManager := (liveAudioInputManager w1)\<lparr>stream := None\<rparr>\<rparr>)))
      else Inr w)"

definition LiveAudioInputManager_updateMicrophoneDevice :: "string \<Rightarrow> world \<Rightarrow> completion" where
  "LiveAudioInputManager_updateMicrophoneDevice deviceId w =
     andThen (LiveAudioInputManager_disconnectMicrophone w)
       (LiveAudioInputManager_connectMicrophone (Some deviceId))"

text \<open>
  The \<open>onaudioprocess\<close> handler. The event's input buffer is the list of its channels;
  \<open>getChannelData\<close> of a channel the buffer does not have throws.
\<close>

definition getChannelData :: "sample list list \<Rightarrow> nat \<Rightarrow> error + sample list" where
  "getChannelData inputBuffer i =
     (if i < length inputBuffer then Inr (inputBuffer ! i) else Inl IndexSizeError)"

definition LiveAudioInputManager_onaudioprocess :: "sample list list \<Rightarrow> world \<Rightarrow> completion" where
  "LiveAudioInputManager_onaudioprocess inputBuffer w =
     (if truthy (onNewAudioRecordingChunk (liveAudioInputManager w)) then
        (case getChannelData inputBuffer 0 of
           Inl e \<Rightarrow> Inl (e, w)
         | Inr audioData \<Rightarrow>
             (case onNewAudioRecordingChunk (liveAudioInputManager w) of
                None \<Rightarrow> Inl (TypeError, w)
              | Some f \<Rightarrow> Inr (w\<lparr>geminiLiveApi := f audioData (geminiLiveApi w)\<rparr>)))
      else Inr w)"

section \<open>The event loop: display frames and audio buffers\<close>

text \<open>
  An exception that reaches the event loop (from an animation-frame callback, an event
  handler, or as the rejection of a promise nobody awaits) is reported on the console and
  the loop goes on from the world at the throw.
\<close>

definition reported :: "completion \<Rightarrow> world" where
  "reported c = (case c of Inl (e, w) \<Rightarrow> console_error ''Uncaught'' w | Inr w \<Rightarrow> w)"

fun runCallback :: "closure \<Rightarrow> world \<Rightarrow> world" where
  "runCallback (VideoCaptureFrame this) w = reported (LiveVideoManager_captureFrame this w)"
| "runCallback (ScreenCaptureFrame this) w = reported (LiveScreenManager_captureFrame this w)"

text \<open>
  One rendered frame: the callbacks registered so far run in order; what they register
  is for the next frame.
\<close>

definition animationFrame :: "world \<Rightarrow> world" where
  "animationFrame w = fold runCallback (animationFrameCallbacks w) (w\<lparr>animationFrameCallbacks := []\<rparr>)"

text \<open>The platform reports the source's dimensions and current picture.\<close>

definition videoFrame :: "nat \<times> nat \<times> nat \<Rightarrow> world \<Rightarrow> world" where
  "videoFrame d w =
     (case d of (vw, vh, p) \<Rightarrow>
        w\<lparr>videoElement := (videoElement w)\<lparr>videoWidth := vw, videoHeight := vh, picture := p\<rparr>\<rparr>)"

fun displayTicks :: "(nat \<times> nat \<times> nat) list \<Rightarrow> world \<Rightarrow> world" where
  "displayTicks [] w = w"
| "displayTicks (d # ds) w = displayTicks ds (animationFrame (videoFrame d w))"

text \<open>
  The script processor node cuts the captured samples into buffers of its configured
  size, keeps the incomplete rest, and fires \<open>onaudioprocess\<close> once per full buffer, with
  one copy of the buffer per configured input channel.
\<close>

function chunksOf :: "nat \<Rightarrow> 'a list \<Rightarrow> 'a list list" where
  "chunksOf n xs = (if n = 0 \<or> length xs < n then [] else take n xs # chunksOf n (drop n xs))"
  by pat_completeness auto
termination
  by (relation "measure (\<lambda>(n, xs). length xs)") auto

declare chunksOf.simps [simp del]

definition fire_audioprocess :: "nat \<Rightarrow> sample list \<Rightarrow> world \<Rightarrow> world" where
  "fire_audioprocess channels c w =
     reported (LiveAudioInputManager_onaudioprocess (replicate channels c) w)"

definition audioCaptured :: "nat \<Rightarrow> sample list \<Rightarrow> world \<Rightarrow> world" where
  "audioCaptured i xs w =
     (if i < length (scriptProcessors w) then
        (let p = scriptProcessors w ! i;
             buf = pending p @ xs;
             cs = chunksOf (bufferSize p) buf;
             rest = drop (length cs * bufferSize p) buf;
             w1 = w\<lparr>scriptProcessors := (scriptProcessors w)[i := p\<lparr>pending := rest\<rparr>]\<rparr>
         in fold (fire_audioprocess (numberOfInputChannels p)) cs w1)
      else w)"

text \<open>
  A call of an async method that nobody awaits runs up to its first \<open>await\<close> and
  returns to the caller; the rest of the method runs when the awaited promise settles,
  and a rejection then goes to the event loop. The three start methods await the
  platform's answer before they do anything else, so an un-awaited call of one only leaves
  the request pending, and the method as defined above is what runs at the settlement, on
  the world of that moment. Requests settle in any order.
\<close>

definition unawaited :: "acquisition \<Rightarrow> world \<Rightarrow> world" where
  "unawaited a w = w\<lparr>pendingAcquisitions := pendingAcquisitions w @ [a]\<rparr>"

fun continuation :: "acquisition \<Rightarrow> world \<Rightarrow> completion" where
  "continuation (StartWebcamPending this deviceId) w =
     LiveVideoManager_startWebcam this deviceId w"
| "continuation (StartCapturePending this) w = LiveScreenManager_startCapture this w"
| "continuation (ConnectMicrophonePending deviceId) w =
     LiveAudioInputManager_connectMicrophone deviceId w"

definition settle :: "nat \<Rightarrow> world \<Rightarrow> world" where
  "settle i w =
     (if i < length (pendingAcquisitions w) then
        reported (continuation (pendingAcquisitions w ! i)
          (w\<lparr>pendingAcquisitions :=
               take i (pendingAcquisitions w) @ drop (Suc i) (pendingAcquisitions w)\<rparr>))
      else w)"

text \<open>
  The two switch methods stop the stream held before their first \<open>await\<close>, which is
  on the start: un-awaited, they stop at once and leave the start pending.
\<close>

definition unawaited_updateWebcamDevice :: "manager_ref \<Rightarrow> string \<Rightarrow> world \<Rightarrow> world" where
  "unawaited_updateWebcamDevice this deviceId w =
     (case LiveVideoManager_stopWebcam this w of
        Inl (e, w') \<Rightarrow> reported (Inl (e, w'))
      | Inr w1 \<Rightarrow> unawaited (StartWebcamPending this (Some deviceId)) w1)"

definition unawaited_updateMicrophoneDevice :: "string \<Rightarrow> world \<Rightarrow> world" where
  "unawaited_updateMicrophoneDevice deviceId w =
     (case LiveAudioInputManager_disconnectMicrophone w of
        Inl (e, w') \<Rightarrow> reported (Inl (e, w'))
      | Inr w1 \<Rightarrow> unawaited (ConnectMicrophonePending (Some deviceId)) w1)"

section \<open>Application wiring\<close>

text \<open>
  Modelled from the spec: the transport object \<open>geminiLiveApi\<close> is not among the sources;
  the specification says it accepts an encoded still image per produced frame and a raw
  audio sample buffer per produced chunk, with no backpressure. It is the list of the
  messages it has accepted.
\<close>

definition sendImageMessage :: "dataURL callback" where
  "sendImageMessage b64Image t = t @ [ImageMessage b64Image]"

definition sendAudioMessage :: "sample list callback" where
  "sendAudioMessage audioData t = t @ [AudioMessage audioData]"

definition console_log :: "string \<Rightarrow> world \<Rightarrow> world" where
  "console_log s w = w\<lparr>console := console w @ [s]\<rparr>"

text \<open>
  The page after the script has run: both video managers are built over the one video
  element and the one canvas, the callbacks are registered, nothing is captured yet.
\<close>

definition pageLoaded :: "string list \<Rightarrow> string list \<Rightarrow> bool \<Rightarrow> bool \<Rightarrow> world" where
  "pageLoaded cameras microphones allowed displayAllowed =
     \<lparr>videoinputs = cameras, audioinputs = microphones,
      permission = allowed, displayPermission = displayAllowed,
      mediaStreams = [],
      videoElement = \<lparr>srcObject = None, paused = True, videoWidth = 0, videoHeight = 0, picture = 0\<rparr>,
      canvasElement = \<lparr>width = 300, height = 150, content = None\<rparr>,
      managers = (\<lambda>m. \<lparr>stream = None, onNewFrame = Some sendImageMessage\<rparr>),
      liveAudioInputManager = \<lparr>stream = None, onNewAudioRecordingChunk = Some sendAudioMessage\<rparr>,
      animationFrameCallbacks = [],
      scriptProcessors = [],
      geminiLiveApi = [],
      console = [],
      pendingAcquisitions = []\<rparr>"

text \<open>
  The handlers, statement by statement. None of them awaits the start it calls, and the
  button handlers log after that call has returned, while the request is pending.
\<close>

definition startAudioInput :: "world \<Rightarrow> completion" where
  "startAudioInput w = Inr (unawaited (ConnectMicrophonePending None) w)"

definition stopAudioInput :: "world \<Rightarrow> completion" where
  "stopAudioInput w = LiveAudioInputManager_disconnectMicrophone w"

definition startCameraCapture :: "world \<Rightarrow> completion" where
  "startCameraCapture w =
     andThen (LiveScreenManager_stopCapture TheLiveScreenManager w)
       (\<lambda>w1. Inr (unawaited (StartWebcamPending TheLiveVideoManager None) w1))"

definition startScreenCapture :: "world \<Rightarrow> completion" where
  "startScreenCapture w =
     andThen (LiveVideoManager_stopWebcam TheLiveVideoManager w)
       (\<lambda>w1. Inr (unawaited (StartCapturePending TheLiveScreenManager) w1))"

definition cameraBtnClick :: "world \<Rightarrow> completion" where
  "cameraBtnClick w = andThen (startCameraCapture w) (\<lambda>w1. Inr (console_log ''cameraBtnClick'' w1))"

definition screenShareBtnClick :: "world \<Rightarrow> completion" where
  "screenShareBtnClick w =
     andThen (startScreenCapture w) (\<lambda>w1. Inr (console_log ''screenShareBtnClick'' w1))"

definition newCameraSelected :: "string \<Rightarrow> world \<Rightarrow> completion" where
  "newCameraSelected v w =
     (let w1 = console_log ''newCameraSelected '' w
      in Inr (unawaited_updateWebcamDevice TheLiveVideoManager v w1))"

definition newMicSelected :: "string \<Rightarrow> world \<Rightarrow> completion" where
  "newMicSelected v w =
     (let w1 = console_log ''newMicSelected'' w
      in Inr (unawaited_updateMicrophoneDevice v w1))"

datatype event =
  CameraBtnClick | ScreenShareBtnClick | NewCameraSelected string | NewMicSelected string
  | AcquisitionSettled nat
  | DisplayFrame "nat \<times> nat \<times> nat"

fun handler :: "event \<Rightarrow> world \<Rightarrow> world" where
  "handler CameraBtnClick w = reported (cameraBtnClick w)"
| "handler ScreenShareBtnClick w = reported (screenShareBtnClick w)"
| "handler (NewCameraSelected v) w = reported (newCameraSelected v w)"
| "handler (NewMicSelected v) w = reported (newMicSelected v w)"
| "handler (AcquisitionSettled i) w = settle i w"
| "handler (DisplayFrame d) w = animationFrame (videoFrame d w)"

text \<open>
  The step relation of the page: one event at a time, from the loaded page. A click while
  a request is pending is a step like any other.
\<close>

inductive reachable :: "world \<Rightarrow> world \<Rightarrow> bool" where
  start: "reachable w0 w0"
| step: "reachable w0 w \<Longrightarrow> reachable w0 (handler e w)"

section \<open>Sequences of operations on one capture component\<close>

datatype op = Start "string option" | Stop | Switch string

fun camera_op :: "manager_ref \<Rightarrow> op \<Rightarrow> world \<Rightarrow> completion" where
  "camera_op this (Start d) w = LiveVideoManager_startWebcam this d w"
| "camera_op this Stop w = LiveVideoManager_stopWebcam this w"
| "camera_op this (Switch d) w = LiveVideoManager_updateWebcamDevice this d w"

text \<open>
  The screen variant takes no device identifier and has no switch method: calling one on
  it throws.
\<close>

fun screen_op :: "manager_ref \<Rightarrow> op \<Rightarrow> world \<Rightarrow> completion" where
  "screen_op this (Start d) w = LiveScreenManager_startCapture this w"
| "screen_op this Stop w = LiveScreenManager_stopCapture this w"
| "screen_op this (Switch d) w = Inl (TypeError, w)"

fun microphone_op :: "op \<Rightarrow> world \<Rightarrow> completion" where
  "microphone_op (Start d) w = LiveAudioInputManager_connectMicrophone d w"
| "microphone_op Stop w = LiveAudioInputManager_disconnectMicrophone w"
| "microphone_op (Switch d) w = LiveAudioInputManager_updateMicrophoneDevice d w"

text \<open>A caller that catches what an operation throws and goes on.\<close>

fun run_ops :: "(op \<Rightarrow> world \<Rightarrow> completion) \<Rightarrow> op list \<Rightarrow> world \<Rightarrow> world" where
  "run_ops f [] w = w"
| "run_ops f (x # xs) w = run_ops f xs (state_of (f x w))"

fun successes :: "(op \<Rightarrow> world \<Rightarrow> completion) \<Rightarrow> op list \<Rightarrow> world \<Rightarrow> nat" where
  "successes f [] w = 0"
| "successes f (Stop # xs) w = successes f xs (state_of (f Stop w))"
| "successes f (x # xs) w =
     (if succeeded (f x w) then 1 else 0) + successes f xs (state_of (f x w))"

text \<open>
  The discipline of a caller that starts a component only while it holds no stream;
  \<open>held\<close> reads the component's stream handle.
\<close>

fun guarded :: "(op \<Rightarrow> world \<Rightarrow> completion) \<Rightarrow> (world \<Rightarrow> nat option) \<Rightarrow> op list \<Rightarrow> world \<Rightarrow> bool" where
  "guarded f held [] w = True"
| "guarded f held (Start d # xs) w =
     (held w = None \<and> guarded f held xs (state_of (f (Start d) w)))"
| "guarded f held (x # xs) w = guarded f held xs (state_of (f x w))"

text \<open>
  \<open>switchDevice\<close> in the specification's words: \<open>stop()\<close> followed by
  \<open>start(deviceId)\<close>, as a caller would issue them.
\<close>

definition spec_switchDevice ::
  "(world \<Rightarrow> completion) \<Rightarrow> (string option \<Rightarrow> world \<Rightarrow> completion) \<Rightarrow> string \<Rightarrow> world \<Rightarrow> completion" where
  "spec_switchDevice stop start deviceId w =
     (case stop w of
        Inl (e, w') \<Rightarrow> Inl (e, w')
      | Inr w' \<Rightarrow> start (Some deviceId) w')"

subsection \<open>Live sources\<close>

definition liveTrack :: "media_kind \<Rightarrow> track \<Rightarrow> bool" where
  "liveTrack k t = (kind t = k \<and> readyState t = Live)"

definition isLive :: "media_kind \<Rightarrow> track list \<Rightarrow> bool" where
  "isLive k ts = (filter (liveTrack k) ts \<noteq> [])"

definition liveIn :: "media_kind \<Rightarrow> track list list \<Rightarrow> nat list" where
  "liveIn k ms = filter (\<lambda>h. isLive k (ms ! h)) [0..<length ms]"

definition liveStreams :: "media_kind \<Rightarrow> world \<Rightarrow> nat list" where
  "liveStreams k w = liveIn k (mediaStreams w)"

definition liveTracks :: "media_kind \<Rightarrow> world \<Rightarrow> nat" where
  "liveTracks k w = length (filter (liveTrack k) (concat (mediaStreams w)))"

text \<open>Every live source of the kind is the one the component holds.\<close>

definition owned :: "media_kind \<Rightarrow> nat option \<Rightarrow> world \<Rightarrow> bool" where
  "owned k s w = (filter (\<lambda>h. s \<noteq> Some h) (liveStreams k w) = [])"

subsection \<open>Closed forms used in the proofs\<close>

fun closure_this :: "closure \<Rightarrow> manager_ref" where
  "closure_this (VideoCaptureFrame this) = this"
| "closure_this (ScreenCaptureFrame this) = this"

text \<open>What one run of \<open>captureFrame\<close> leaves, the rescheduling apart.\<close>

definition afterSample :: "manager_ref \<Rightarrow> world \<Rightarrow> world" where
  "afterSample this w =
     (if videoWidth (videoElement w) > 0 \<and> videoHeight (videoElement w) > 0 then
        (let vw = videoWidth (videoElement w); vh = videoHeight (videoElement w);
             bm = Some (Bitmap (picture (videoElement w)) vw vh);
             w3 = w\<lparr>canvasElement := \<lparr>width = vw, height = vh, content = bm\<rparr>\<rparr>
         in case onNewFrame (managers w this) of
              None \<Rightarrow> w3
            | Some f \<Rightarrow> w3\<lparr>geminiLiveApi := f (DataURL ''image/jpeg'' vw vh bm) (geminiLiveApi w)\<rparr>)
      else w)"

text \<open>The world with the class of every pending closure forgotten.\<close>

definition unlabel :: "world \<Rightarrow> world" where
  "unlabel w =
     w\<lparr>animationFrameCallbacks :=
         map (\<lambda>c. VideoCaptureFrame (closure_this c)) (animationFrameCallbacks w)\<rparr>"

text \<open>What a successful start leaves when sampling begins: the fresh stream, held and bound.\<close>

definition bound :: "manager_ref \<Rightarrow> track \<Rightarrow> world \<Rightarrow> world" where
  "bound this t w =
     play (set_srcObject (Some (length (mediaStreams w)))
       (set_stream this (Some (length (mediaStreams w)))
         (w\<lparr>mediaStreams := mediaStreams w @ [[t]]\<rparr>)))"

subsection \<open>A concrete page\<close>

definition demo_page :: world where
  "demo_page = pageLoaded [''camA'', ''camB''] [''micA''] True True"

definition demo_camera :: world where
  "demo_camera = state_of (LiveVideoManager_startWebcam TheLiveVideoManager None demo_page)"

text \<open>The page with the camera started and its frame callback cleared afterwards.\<close>

definition set_onNewFrame :: "manager_ref \<Rightarrow> dataURL callback option \<Rightarrow> world \<Rightarrow> world" where
  "set_onNewFrame this f w = w\<lparr>managers := (managers w)(this := (managers w this)\<lparr>onNewFrame := f\<rparr>)\<rparr>"

definition demo_cleared :: world where
  "demo_cleared = set_onNewFrame TheLiveVideoManager None demo_camera"

text \<open>The page with the camera started on one device and switched to another.\<close>

definition demo_switched :: world where
  "demo_switched =
     run_ops (camera_op TheLiveVideoManager) [Start (Some ''camA''), Switch ''camB''] demo_page"

text \<open>The page with the microphone connected.\<close>

definition demo_microphone :: world where
  "demo_microphone = state_of (LiveAudioInputManager_connectMicrophone None demo_page)"

text \<open>
  The page after the screen share button and then the selection of a camera, each
  request answered before the next event.
\<close>

definition demo_shared_then_selected :: world where
  "demo_shared_then_selected =
     handler (AcquisitionSettled 0) (handler (NewCameraSelected ''camB'')
       (handler (AcquisitionSettled 0) (handler ScreenShareBtnClick demo_page)))"

text \<open>
  The page after the camera button pressed twice, and then the screen share button, each
  request answered before the next event.
\<close>

definition demo_camera_twice :: world where
  "demo_camera_twice =
     handler (AcquisitionSettled 0) (handler CameraBtnClick
       (handler (AcquisitionSettled 0) (handler CameraBtnClick demo_page)))"

definition demo_camera_twice_then_screen :: world where
  "demo_camera_twice_then_screen =
     handler (AcquisitionSettled 0) (handler ScreenShareBtnClick demo_camera_twice)"

text \<open>
  The page after the camera button and the screen share button pressed one after the
  other while the camera request is pending, and then both requests answered.
\<close>

definition demo_both_pending :: world where
  "demo_both_pending =
     handler (AcquisitionSettled 0) (handler (AcquisitionSettled 0)
       (handler ScreenShareBtnClick (handler CameraBtnClick demo_page)))"

section \<open>Sampling\<close>

lemma truthy_iff: "truthy x = (x \<noteq> None)"
  by (cases x) (simp_all add: truthy_def)

lemma video_captureFrame_eq:
  "LiveVideoManager_captureFrame this w =
     Inr (requestAnimationFrame (VideoCaptureFrame this) (afterSample this w))"
  by (cases "canvasElement w")
     (simp add: LiveVideoManager_captureFrame_def andThen_def Let_def truthy_iff afterSample_def
      set_canvas_width_def set_canvas_height_def drawImage_def toDataURL_def
      split: option.splits)

lemma screen_captureFrame_eq:
  "LiveScreenManager_captureFrame this w =
     Inr (requestAnimationFrame (ScreenCaptureFrame this) (afterSample this w))"
  by (cases "canvasElement w")
     (simp add: LiveScreenManager_captureFrame_def andThen_def Let_def truthy_iff afterSample_def
      set_canvas_width_def set_canvas_height_def drawImage_def toDataURL_def
      split: option.splits)

lemma runCallback_eq:
  "runCallback c w = requestAnimationFrame c (afterSample (closure_this c) w)"
  by (cases c) (simp_all add: video_captureFrame_eq screen_captureFrame_eq reported_def)

lemma afterSample_fields:
  "animationFrameCallbacks (afterSample this w) = animationFrameCallbacks w"
  "videoElement (afterSample this w) = videoElement w"
  "managers (afterSample this w) = managers w"
  "mediaStreams (afterSample this w) = mediaStreams w"
  "console (afterSample this w) = console w"
  "liveAudioInputManager (afterSample this w) = liveAudioInputManager w"
  "scriptProcessors (afterSample this w) = scriptProcessors w"
  "videoinputs (afterSample this w) = videoinputs w"
  "audioinputs (afterSample this w) = audioinputs w"
  "permission (afterSample this w) = permission w"
  "displayPermission (afterSample this w) = displayPermission w"
  by (simp_all add: afterSample_def Let_def split: option.splits)

lemma afterSample_not_ready:
  "videoWidth (videoElement w) = 0 \<or> videoHeight (videoElement w) = 0 \<Longrightarrow> afterSample this w = w"
  by (auto simp add: afterSample_def)

lemma afterSample_no_callback:
  "onNewFrame (managers w this) = None \<Longrightarrow> geminiLiveApi (afterSample this w) = geminiLiveApi w"
  by (simp add: afterSample_def Let_def)

lemma afterSample_ready:
  "0 < videoWidth (videoElement w) \<Longrightarrow> 0 < videoHeight (videoElement w) \<Longrightarrow>
   onNewFrame (managers w this) = Some f \<Longrightarrow>
   geminiLiveApi (afterSample this w) =
     f (DataURL ''image/jpeg'' (videoWidth (videoElement w)) (videoHeight (videoElement w))
          (Some (Bitmap (picture (videoElement w)) (videoWidth (videoElement w)) (videoHeight (videoElement w)))))
       (geminiLiveApi w)"
  by (simp add: afterSample_def Let_def)

text \<open>A frame: fold over the queue.\<close>

lemma fold_runCallback_queue:
  "animationFrameCallbacks (fold runCallback q w) = animationFrameCallbacks w @ q"
  by (induction q arbitrary: w)
     (simp_all add: runCallback_eq requestAnimationFrame_def afterSample_fields)

lemma animationFrame_queue:
  "animationFrameCallbacks (animationFrame w) = animationFrameCallbacks w"
  by (simp add: animationFrame_def fold_runCallback_queue)

lemma fold_runCallback_console:
  "console (fold runCallback q w) = console w"
  by (induction q arbitrary: w)
     (simp_all add: runCallback_eq requestAnimationFrame_def afterSample_fields)

lemma fold_runCallback_managers:
  "managers (fold runCallback q w) = managers w"
  by (induction q arbitrary: w)
     (simp_all add: runCallback_eq requestAnimationFrame_def afterSample_fields)

lemma fold_runCallback_videoElement:
  "videoElement (fold runCallback q w) = videoElement w"
  by (induction q arbitrary: w)
     (simp_all add: runCallback_eq requestAnimationFrame_def afterSample_fields)

lemma fold_runCallback_no_callback:
  "\<forall>c \<in> set q. onNewFrame (managers w (closure_this c)) = None \<Longrightarrow>
   geminiLiveApi (fold runCallback q w) = geminiLiveApi w"
proof (induction q arbitrary: w)
  case Nil
  then show ?case by simp
next
  case (Cons c q)
  let ?w1 = "runCallback c w"
  have m: "managers ?w1 = managers w"
    by (simp add: runCallback_eq requestAnimationFrame_def afterSample_fields)
  have g: "geminiLiveApi ?w1 = geminiLiveApi w"
    using Cons.prems by (simp add: runCallback_eq requestAnimationFrame_def afterSample_no_callback)
  have "geminiLiveApi (fold runCallback q ?w1) = geminiLiveApi ?w1"
    using Cons.prems by (intro Cons.IH) (simp add: m)
  then show ?case by (simp add: g)
qed

lemma fold_runCallback_not_ready:
  "videoWidth (videoElement w) = 0 \<or> videoHeight (videoElement w) = 0 \<Longrightarrow>
   fold runCallback q w = w\<lparr>animationFrameCallbacks := animationFrameCallbacks w @ q\<rparr>"
proof (induction q arbitrary: w)
  case Nil
  then show ?case by simp
next
  case (Cons c q)
  have s: "runCallback c w = w\<lparr>animationFrameCallbacks := animationFrameCallbacks w @ [c]\<rparr>"
    using Cons.prems by (simp add: runCallback_eq afterSample_not_ready requestAnimationFrame_def)
  show ?case
    using Cons.prems by (simp add: s Cons.IH)
qed

section \<open>Stopping\<close>

lemma stopTracks_fields:
  "managers (stopTracks h w) = managers w"
  "videoElement (stopTracks h w) = videoElement w"
  "liveAudioInputManager (stopTracks h w) = liveAudioInputManager w"
  "animationFrameCallbacks (stopTracks h w) = animationFrameCallbacks w"
  "scriptProcessors (stopTracks h w) = scriptProcessors w"
  "geminiLiveApi (stopTracks h w) = geminiLiveApi w"
  "console (stopTracks h w) = console w"
  "canvasElement (stopTracks h w) = canvasElement w"
  "videoinputs (stopTracks h w) = videoinputs w"
  "audioinputs (stopTracks h w) = audioinputs w"
  "permission (stopTracks h w) = permission w"
  "displayPermission (stopTracks h w) = displayPermission w"
  by (simp_all add: stopTracks_def)

lemma stopWebcam_stopped:
  "stream (managers w this) = None \<Longrightarrow> LiveVideoManager_stopWebcam this w = Inr w"
  by (simp add: LiveVideoManager_stopWebcam_def truthy_iff)

lemma stopWebcam_live:
  "stream (managers w this) = Some h \<Longrightarrow>
   LiveVideoManager_stopWebcam this w =
     Inr (set_stream this None (set_srcObject None (stopTracks h w)))"
  by (simp add: LiveVideoManager_stopWebcam_def truthy_iff)

lemma stopWebcam_result:
  "\<exists>w1. LiveVideoManager_stopWebcam this w = Inr w1 \<and> stream (managers w1 this) = None"
  by (cases "stream (managers w this)")
     (simp_all add: stopWebcam_stopped stopWebcam_live set_stream_def set_srcObject_def)

lemma stopCapture_eq_stopWebcam:
  "LiveScreenManager_stopCapture this w = LiveVideoManager_stopWebcam this w"
  by (simp add: LiveScreenManager_stopCapture_def LiveVideoManager_stopWebcam_def)

lemma disconnect_stopped:
  "stream (liveAudioInputManager w) = None \<Longrightarrow> LiveAudioInputManager_disconnectMicrophone w = Inr w"
  by (simp add: LiveAudioInputManager_disconnectMicrophone_def truthy_iff)

lemma disconnect_live:
  "stream (liveAudioInputManager w) = Some h \<Longrightarrow>
   LiveAudioInputManager_disconnectMicrophone w =
     Inr ((stopTracks h w)\<lparr>liveAudioInputManager := (liveAudioInputManager w)\<lparr>stream := None\<rparr>\<rparr>)"
  by (simp add: LiveAudioInputManager_disconnectMicrophone_def truthy_iff Let_def stopTracks_fields)

lemma disconnect_result:
  "\<exists>w1. LiveAudioInputManager_disconnectMicrophone w = Inr w1 \<and> stream (liveAudioInputManager w1) = None"
  by (cases "stream (liveAudioInputManager w)")
     (simp_all add: disconnect_stopped disconnect_live)

text \<open>
  C6. Stopping is idempotent for the three capture components: \<open>stopWebcam\<close>,
  \<open>stopCapture\<close> and \<open>disconnectMicrophone\<close> always return (the guard keeps the
  dereference of a null stream from being reached), a second call right after the first
  returns and leaves the world exactly as the first left it, and on a component that holds
  no stream the call returns the world unchanged.
\<close>

theorem stop_idempotent:
  "(\<exists>w1. LiveVideoManager_stopWebcam this w = Inr w1
        \<and> LiveVideoManager_stopWebcam this w1 = Inr w1)
   \<and> (\<exists>w1. LiveScreenManager_stopCapture this w = Inr w1
        \<and> LiveScreenManager_stopCapture this w1 = Inr w1)
   \<and> (\<exists>w1. LiveAudioInputManager_disconnectMicrophone w = Inr w1
        \<and> LiveAudioInputManager_disconnectMicrophone w1 = Inr w1)
   \<and> (stream (managers w this) = None \<longrightarrow>
        LiveVideoManager_stopWebcam this w = Inr w \<and> LiveScreenManager_stopCapture this w = Inr w)
   \<and> (stream (liveAudioInputManager w) = None \<longrightarrow>
        LiveAudioInputManager_disconnectMicrophone w = Inr w)"
proof -
  have v: "\<exists>w1. LiveVideoManager_stopWebcam this w = Inr w1
        \<and> LiveVideoManager_stopWebcam this w1 = Inr w1"
    using stopWebcam_result [of this w] stopWebcam_stopped by blast
  have a: "\<exists>w1. LiveAudioInputManager_disconnectMicrophone w = Inr w1
        \<and> LiveAudioInputManager_disconnectMicrophone w1 = Inr w1"
    using disconnect_result [of w] disconnect_stopped by blast
  show ?thesis
    using v a by (simp add: stopCapture_eq_stopWebcam stopWebcam_stopped disconnect_stopped)
qed

theorem stop_idempotent_witness:
  "stream (managers (pageLoaded [''camA''] [''micA''] True True) TheLiveVideoManager) = None
   \<and> stream (liveAudioInputManager (pageLoaded [''camA''] [''micA''] True True)) = None
   \<and> LiveVideoManager_stopWebcam TheLiveVideoManager (pageLoaded [''camA''] [''micA''] True True)
       = Inr (pageLoaded [''camA''] [''micA''] True True)
   \<and> LiveAudioInputManager_disconnectMicrophone (pageLoaded [''camA''] [''micA''] True True)
       = Inr (pageLoaded [''camA''] [''micA''] True True)"
proof -
  have h1: "stream (managers (pageLoaded [''camA''] [''micA''] True True) TheLiveVideoManager) = None"
    by (simp add: pageLoaded_def)
  have h2: "stream (liveAudioInputManager (pageLoaded [''camA''] [''micA''] True True)) = None"
    by (simp add: pageLoaded_def)
  show ?thesis
    using stop_idempotent [of TheLiveVideoManager "pageLoaded [''camA''] [''micA''] True True"] h1 h2
    by simp
qed

section \<open>Display frames\<close>

lemma videoFrame_fields:
  "managers (videoFrame d w) = managers w"
  "animationFrameCallbacks (videoFrame d w) = animationFrameCallbacks w"
  "geminiLiveApi (videoFrame d w) = geminiLiveApi w"
  "console (videoFrame d w) = console w"
  "canvasElement (videoFrame d w) = canvasElement w"
  "mediaStreams (videoFrame d w) = mediaStreams w"
  by (simp_all add: videoFrame_def split: prod.splits)

lemma videoFrame_dims:
  "videoWidth (videoElement (videoFrame (vw, vh, p) w)) = vw"
  "videoHeight (videoElement (videoFrame (vw, vh, p) w)) = vh"
  "picture (videoElement (videoFrame (vw, vh, p) w)) = p"
  by (simp_all add: videoFrame_def)

lemma animationFrame_not_ready:
  "videoWidth (videoElement w) = 0 \<or> videoHeight (videoElement w) = 0 \<Longrightarrow> animationFrame w = w"
  by (simp add: animationFrame_def fold_runCallback_not_ready)

lemma animationFrame_fields:
  "managers (animationFrame w) = managers w"
  "console (animationFrame w) = console w"
  "videoElement (animationFrame w) = videoElement w"
  by (simp_all add: animationFrame_def fold_runCallback_managers fold_runCallback_console
      fold_runCallback_videoElement)

lemma animationFrame_no_callback:
  "\<forall>c \<in> set (animationFrameCallbacks w). onNewFrame (managers w (closure_this c)) = None \<Longrightarrow>
   geminiLiveApi (animationFrame w) = geminiLiveApi w"
  by (simp add: animationFrame_def fold_runCallback_no_callback)

lemma animationFrame_single:
  "animationFrameCallbacks w = [c] \<Longrightarrow> onNewFrame (managers w (closure_this c)) = Some f \<Longrightarrow>
   0 < videoWidth (videoElement w) \<Longrightarrow> 0 < videoHeight (videoElement w) \<Longrightarrow>
   geminiLiveApi (animationFrame w) =
     f (DataURL ''image/jpeg'' (videoWidth (videoElement w)) (videoHeight (videoElement w))
          (Some (Bitmap (picture (videoElement w)) (videoWidth (videoElement w)) (videoHeight (videoElement w)))))
       (geminiLiveApi w)"
  by (simp add: animationFrame_def runCallback_eq requestAnimationFrame_def afterSample_ready)

lemma displayTicks_queue:
  "animationFrameCallbacks (displayTicks ds w) = animationFrameCallbacks w"
  by (induction ds arbitrary: w) (simp_all add: animationFrame_queue videoFrame_fields)

lemma displayTicks_console:
  "console (displayTicks ds w) = console w"
  by (induction ds arbitrary: w) (simp_all add: animationFrame_fields videoFrame_fields)

lemma displayTicks_managers:
  "managers (displayTicks ds w) = managers w"
  by (induction ds arbitrary: w) (simp_all add: animationFrame_fields videoFrame_fields)

lemma displayTicks_no_callback:
  "\<forall>c \<in> set (animationFrameCallbacks w). onNewFrame (managers w (closure_this c)) = None \<Longrightarrow>
   geminiLiveApi (displayTicks ds w) = geminiLiveApi w"
proof (induction ds arbitrary: w)
  case Nil
  then show ?case by simp
next
  case (Cons d ds)
  let ?w1 = "animationFrame (videoFrame d w)"
  have q: "animationFrameCallbacks ?w1 = animationFrameCallbacks w"
    by (simp add: animationFrame_queue videoFrame_fields)
  have m: "managers ?w1 = managers w"
    by (simp add: animationFrame_fields videoFrame_fields)
  have g: "geminiLiveApi ?w1 = geminiLiveApi w"
    using Cons.prems by (simp add: animationFrame_no_callback videoFrame_fields)
  have "geminiLiveApi (displayTicks ds ?w1) = geminiLiveApi ?w1"
    using Cons.prems by (intro Cons.IH) (simp add: q m)
  then show ?case by (simp add: g)
qed

lemma tick_not_ready:
  "vw = 0 \<or> vh = 0 \<Longrightarrow> animationFrame (videoFrame (vw, vh, p) w) = videoFrame (vw, vh, p) w"
  by (rule animationFrame_not_ready) (simp add: videoFrame_dims)

text \<open>
  C3. The frame sampler draws, encodes and delivers nothing on a tick on which the source
  reports a zero width or a zero height: \<open>captureFrame\<close> of either class then only
  reschedules itself, and a whole display frame leaves the world as it was. With one
  sampling loop pending and a frame callback \<open>f\<close> registered, over the ticks
  not-ready, not-ready, ready the transport and the canvas are untouched after the first
  and after the second tick, and after the third the callback has been applied exactly
  once, to the JPEG data URL of the picture drawn at the reported size.
\<close>

theorem sampler_waits_for_dimensions:
  "((videoWidth (videoElement w) = 0 \<or> videoHeight (videoElement w) = 0) \<longrightarrow>
       LiveVideoManager_captureFrame this w = Inr (requestAnimationFrame (VideoCaptureFrame this) w)
     \<and> LiveScreenManager_captureFrame this w = Inr (requestAnimationFrame (ScreenCaptureFrame this) w)
     \<and> animationFrame w = w)
   \<and> (animationFrameCallbacks w = [c] \<and> onNewFrame (managers w (closure_this c)) = Some f
        \<and> (w1 = 0 \<or> h1 = 0) \<and> (w2 = 0 \<or> h2 = 0) \<and> 0 < w3 \<and> 0 < h3 \<longrightarrow>
       geminiLiveApi (displayTicks [(w1, h1, p1)] w) = geminiLiveApi w
     \<and> canvasElement (displayTicks [(w1, h1, p1)] w) = canvasElement w
     \<and> geminiLiveApi (displayTicks [(w1, h1, p1), (w2, h2, p2)] w) = geminiLiveApi w
     \<and> canvasElement (displayTicks [(w1, h1, p1), (w2, h2, p2)] w) = canvasElement w
     \<and> geminiLiveApi (displayTicks [(w1, h1, p1), (w2, h2, p2), (w3, h3, p3)] w) =
         f (DataURL ''image/jpeg'' w3 h3 (Some (Bitmap p3 w3 h3))) (geminiLiveApi w))"
proof -
  have a: "videoWidth (videoElement w) = 0 \<or> videoHeight (videoElement w) = 0 \<Longrightarrow>
       LiveVideoManager_captureFrame this w = Inr (requestAnimationFrame (VideoCaptureFrame this) w)
     \<and> LiveScreenManager_captureFrame this w = Inr (requestAnimationFrame (ScreenCaptureFrame this) w)
     \<and> animationFrame w = w"
    by (simp add: video_captureFrame_eq screen_captureFrame_eq afterSample_not_ready
        animationFrame_not_ready)
  have b: "geminiLiveApi (displayTicks [(w1, h1, p1)] w) = geminiLiveApi w
     \<and> canvasElement (displayTicks [(w1, h1, p1)] w) = canvasElement w
     \<and> geminiLiveApi (displayTicks [(w1, h1, p1), (w2, h2, p2)] w) = geminiLiveApi w
     \<and> canvasElement (displayTicks [(w1, h1, p1), (w2, h2, p2)] w) = canvasElement w
     \<and> geminiLiveApi (displayTicks [(w1, h1, p1), (w2, h2, p2), (w3, h3, p3)] w) =
         f (DataURL ''image/jpeg'' w3 h3 (Some (Bitmap p3 w3 h3))) (geminiLiveApi w)"
    if q: "animationFrameCallbacks w = [c]"
      and cb: "onNewFrame (managers w (closure_this c)) = Some f"
      and n1: "w1 = 0 \<or> h1 = 0" and n2: "w2 = 0 \<or> h2 = 0" and r: "0 < w3" "0 < h3"
  proof -
    let ?wa = "videoFrame (w1, h1, p1) w"
    let ?wb = "videoFrame (w2, h2, p2) ?wa"
    let ?wc = "videoFrame (w3, h3, p3) ?wb"
    have t1: "displayTicks [(w1, h1, p1)] w = ?wa"
      using n1 by (simp add: tick_not_ready)
    have t2: "displayTicks [(w1, h1, p1), (w2, h2, p2)] w = ?wb"
      using n1 n2 by (simp add: tick_not_ready)
    have t3: "displayTicks [(w1, h1, p1), (w2, h2, p2), (w3, h3, p3)] w = animationFrame ?wc"
      using n1 n2 by (simp add: tick_not_ready)
    have "geminiLiveApi (animationFrame ?wc) =
        f (DataURL ''image/jpeg'' w3 h3 (Some (Bitmap p3 w3 h3))) (geminiLiveApi ?wc)"
      using animationFrame_single [of ?wc c f] q cb r
      by (simp add: videoFrame_fields videoFrame_dims)
    then show ?thesis
      unfolding t1 t2 t3 by (simp add: videoFrame_fields)
  qed
  show ?thesis using a b by blast
qed

section \<open>Acquisition and start\<close>

lemma getUserMedia_cases:
  "(\<exists>e. getUserMedia k x w = Inl (e, w))
   \<or> (\<exists>d. getUserMedia k x w = Inr (newStream [\<lparr>kind = k, device = d, readyState = Live\<rparr>] w))"
  by (auto simp add: getUserMedia_def split: option.splits list.splits)

lemma getUserMedia_exact:
  "d \<in> set (inputs k w) \<Longrightarrow> permission w \<Longrightarrow> d \<noteq> [] \<Longrightarrow>
   getUserMedia k (exactDevice (Some d)) w =
     Inr (newStream [\<lparr>kind = k, device = d, readyState = Live\<rparr>] w)"
  by (simp add: getUserMedia_def exactDevice_def)

lemma getUserMedia_default:
  "inputs k w = d # ds \<Longrightarrow> permission w \<Longrightarrow>
   getUserMedia k None w = Inr (newStream [\<lparr>kind = k, device = d, readyState = Live\<rparr>] w)"
  by (simp add: getUserMedia_def)

lemma getUserMedia_valid:
  assumes "d \<in> set (inputs k w)" and "permission w"
  shows "\<exists>d'. getUserMedia k (exactDevice (Some d)) w =
     Inr (newStream [\<lparr>kind = k, device = d', readyState = Live\<rparr>] w)"
proof (cases "d = []")
  case True
  from assms(1) obtain x xs where "inputs k w = x # xs"
    by (cases "inputs k w") auto
  then show ?thesis
    using True assms(2) by (auto simp add: exactDevice_def getUserMedia_default)
next
  case False
  then show ?thesis
    using assms by (auto simp add: getUserMedia_exact)
qed

text \<open>Whether an acquisition fails depends on the devices and the permission only.\<close>

lemma getUserMedia_fails_elsewhere:
  "getUserMedia k x w = Inl (e, w0) \<Longrightarrow> inputs k w' = inputs k w \<Longrightarrow>
   permission w' = permission w \<Longrightarrow> getUserMedia k x w' = Inl (e, w')"
  by (auto simp add: getUserMedia_def newStream_def split: option.splits list.splits if_splits)

lemma startWebcam_denied:
  "getUserMedia Videoinput (exactDevice d) w = Inl (e, w0) \<Longrightarrow>
   LiveVideoManager_startWebcam this d w = Inl (e, console_error ''Error starting webcam:'' w)"
  using getUserMedia_cases [of Videoinput "exactDevice d" w]
  by (auto simp add: LiveVideoManager_startWebcam_def)

lemma startWebcam_granted:
  "getUserMedia Videoinput (exactDevice d) w = Inr (newStream [t] w) \<Longrightarrow>
   LiveVideoManager_startWebcam this d w =
     Inr (requestAnimationFrame (VideoCaptureFrame this) (afterSample this (bound this t w)))"
  by (simp add: LiveVideoManager_startWebcam_def newStream_def Let_def bound_def
      LiveVideoManager_captureFrames_def video_captureFrame_eq set_stream_def)

lemma startCapture_denied:
  "\<not> displayPermission w \<Longrightarrow>
   LiveScreenManager_startCapture this w =
     Inl (NotAllowedError, console_error ''Error starting screen capture:'' w)"
  by (simp add: LiveScreenManager_startCapture_def getDisplayMedia_def)

lemma startCapture_granted:
  "displayPermission w \<Longrightarrow>
   LiveScreenManager_startCapture this w =
     Inr (requestAnimationFrame (ScreenCaptureFrame this)
       (afterSample this (bound this \<lparr>kind = Display, device = ''screen'', readyState = Live\<rparr> w)))"
  by (simp add: LiveScreenManager_startCapture_def getDisplayMedia_def newStream_def Let_def
      bound_def LiveScreenManager_captureFrames_def screen_captureFrame_eq set_stream_def)

lemma bound_fields:
  "mediaStreams (bound this t w) = mediaStreams w @ [[t]]"
  "stream (managers (bound this t w) this) = Some (length (mediaStreams w))"
  "onNewFrame (managers (bound this t w) m) = onNewFrame (managers w m)"
  "m \<noteq> this \<Longrightarrow> managers (bound this t w) m = managers w m"
  "srcObject (videoElement (bound this t w)) = Some (length (mediaStreams w))"
  "videoWidth (videoElement (bound this t w)) = videoWidth (videoElement w)"
  "videoHeight (videoElement (bound this t w)) = videoHeight (videoElement w)"
  "picture (videoElement (bound this t w)) = picture (videoElement w)"
  "animationFrameCallbacks (bound this t w) = animationFrameCallbacks w"
  "geminiLiveApi (bound this t w) = geminiLiveApi w"
  "console (bound this t w) = console w"
  "liveAudioInputManager (bound this t w) = liveAudioInputManager w"
  "scriptProcessors (bound this t w) = scriptProcessors w"
  "canvasElement (bound this t w) = canvasElement w"
  "videoinputs (bound this t w) = videoinputs w"
  "audioinputs (bound this t w) = audioinputs w"
  "permission (bound this t w) = permission w"
  "displayPermission (bound this t w) = displayPermission w"
  by (simp_all add: bound_def play_def set_srcObject_def set_stream_def)

lemma requestAnimationFrame_fields:
  "mediaStreams (requestAnimationFrame c w) = mediaStreams w"
  "managers (requestAnimationFrame c w) = managers w"
  "videoElement (requestAnimationFrame c w) = videoElement w"
  "canvasElement (requestAnimationFrame c w) = canvasElement w"
  "animationFrameCallbacks (requestAnimationFrame c w) = animationFrameCallbacks w @ [c]"
  "geminiLiveApi (requestAnimationFrame c w) = geminiLiveApi w"
  "console (requestAnimationFrame c w) = console w"
  "liveAudioInputManager (requestAnimationFrame c w) = liveAudioInputManager w"
  "scriptProcessors (requestAnimationFrame c w) = scriptProcessors w"
  "videoinputs (requestAnimationFrame c w) = videoinputs w"
  "audioinputs (requestAnimationFrame c w) = audioinputs w"
  "permission (requestAnimationFrame c w) = permission w"
  "displayPermission (requestAnimationFrame c w) = displayPermission w"
  by (simp_all add: requestAnimationFrame_def)

lemma console_error_fields:
  "mediaStreams (console_error s w) = mediaStreams w"
  "managers (console_error s w) = managers w"
  "videoElement (console_error s w) = videoElement w"
  "canvasElement (console_error s w) = canvasElement w"
  "animationFrameCallbacks (console_error s w) = animationFrameCallbacks w"
  "geminiLiveApi (console_error s w) = geminiLiveApi w"
  "liveAudioInputManager (console_error s w) = liveAudioInputManager w"
  "scriptProcessors (console_error s w) = scriptProcessors w"
  "videoinputs (console_error s w) = videoinputs w"
  "audioinputs (console_error s w) = audioinputs w"
  "permission (console_error s w) = permission w"
  "displayPermission (console_error s w) = displayPermission w"
  by (simp_all add: console_error_def)

lemma demo_page_fields:
  "videoinputs demo_page = [''camA'', ''camB'']"
  "audioinputs demo_page = [''micA'']"
  "permission demo_page"
  "displayPermission demo_page"
  "mediaStreams demo_page = []"
  "managers demo_page m = \<lparr>stream = None, onNewFrame = Some sendImageMessage\<rparr>"
  "liveAudioInputManager demo_page = \<lparr>stream = None, onNewAudioRecordingChunk = Some sendAudioMessage\<rparr>"
  "animationFrameCallbacks demo_page = []"
  "scriptProcessors demo_page = []"
  "geminiLiveApi demo_page = []"
  "console demo_page = []"
  "pendingAcquisitions demo_page = []"
  "videoElement demo_page = \<lparr>srcObject = None, paused = True, videoWidth = 0, videoHeight = 0, picture = 0\<rparr>"
  "canvasElement demo_page = \<lparr>width = 300, height = 150, content = None\<rparr>"
  by (simp_all add: demo_page_def pageLoaded_def)

lemma demo_camera_eq:
  "demo_camera =
     requestAnimationFrame (VideoCaptureFrame TheLiveVideoManager)
       (bound TheLiveVideoManager \<lparr>kind = Videoinput, device = ''camA'', readyState = Live\<rparr> demo_page)"
proof -
  have g: "getUserMedia Videoinput (exactDevice None) demo_page =
      Inr (newStream [\<lparr>kind = Videoinput, device = ''camA'', readyState = Live\<rparr>] demo_page)"
    by (simp add: exactDevice_def getUserMedia_default [where ds = "[''camB'']"] inputs_def demo_page_fields)
  show ?thesis
    by (simp add: demo_camera_def startWebcam_granted [OF g] state_of_def
        afterSample_not_ready bound_fields demo_page_fields)
qed

lemma demo_camera_fields:
  "animationFrameCallbacks demo_camera = [VideoCaptureFrame TheLiveVideoManager]"
  "onNewFrame (managers demo_camera m) = Some sendImageMessage"
  "stream (managers demo_camera TheLiveVideoManager) = Some 0"
  "stream (managers demo_camera TheLiveScreenManager) = None"
  "geminiLiveApi demo_camera = []"
  "console demo_camera = []"
  "mediaStreams demo_camera = [[\<lparr>kind = Videoinput, device = ''camA'', readyState = Live\<rparr>]]"
  using bound_fields(2) [of TheLiveVideoManager _ demo_page]
  by (simp_all add: demo_camera_eq requestAnimationFrame_fields bound_fields demo_page_fields)

theorem sampler_waits_for_dimensions_witness:
  "animationFrameCallbacks demo_camera = [VideoCaptureFrame TheLiveVideoManager]
   \<and> onNewFrame (managers demo_camera TheLiveVideoManager) = Some sendImageMessage
   \<and> geminiLiveApi (displayTicks [(0, 0, 1)] demo_camera) = []
   \<and> geminiLiveApi (displayTicks [(0, 0, 1), (640, 0, 2)] demo_camera) = []
   \<and> geminiLiveApi (displayTicks [(0, 0, 1), (640, 0, 2), (640, 480, 3)] demo_camera) =
       [ImageMessage (DataURL ''image/jpeg'' 640 480 (Some (Bitmap 3 640 480)))]"
  using sampler_waits_for_dimensions [of demo_camera TheLiveVideoManager
      "VideoCaptureFrame TheLiveVideoManager" sendImageMessage 0 0 640 0 640 480 1 2 3]
  by (simp add: demo_camera_fields sendImageMessage_def)

text \<open>
  C7. With the frame callback cleared for every pending sampling loop, any number of
  display ticks, at any reported dimensions, delivers nothing to the transport. No tick
  raises: \<open>captureFrame\<close> of either class returns for every world (the call of the
  callback is behind the guard, so the call of a null callback is never reached), and no
  uncaught exception is reported on the console. Every run of \<open>captureFrame\<close>
  registers itself again, whatever the dimensions and whether or not a callback is
  registered, so the pending loops after any number of ticks are the ones before.
\<close>

theorem cleared_callback_drops_frames:
  "((\<forall>c \<in> set (animationFrameCallbacks w). onNewFrame (managers w (closure_this c)) = None) \<longrightarrow>
       geminiLiveApi (displayTicks ds w) = geminiLiveApi w)
   \<and> console (displayTicks ds w) = console w
   \<and> animationFrameCallbacks (displayTicks ds w) = animationFrameCallbacks w
   \<and> (\<exists>w'. LiveVideoManager_captureFrame this w = Inr w'
         \<and> animationFrameCallbacks w' = animationFrameCallbacks w @ [VideoCaptureFrame this]
         \<and> (onNewFrame (managers w this) = None \<longrightarrow> geminiLiveApi w' = geminiLiveApi w))
   \<and> (\<exists>w'. LiveScreenManager_captureFrame this w = Inr w'
         \<and> animationFrameCallbacks w' = animationFrameCallbacks w @ [ScreenCaptureFrame this]
         \<and> (onNewFrame (managers w this) = None \<longrightarrow> geminiLiveApi w' = geminiLiveApi w))"
  by (simp add: displayTicks_no_callback displayTicks_console displayTicks_queue
      video_captureFrame_eq screen_captureFrame_eq requestAnimationFrame_fields
      afterSample_fields afterSample_no_callback)

lemma demo_cleared_fields:
  "animationFrameCallbacks demo_cleared = [VideoCaptureFrame TheLiveVideoManager]"
  "onNewFrame (managers demo_cleared TheLiveVideoManager) = None"
  "geminiLiveApi demo_cleared = []"
  "console demo_cleared = []"
  by (simp_all add: demo_cleared_def set_onNewFrame_def demo_camera_fields)

theorem cleared_callback_drops_frames_witness:
  "animationFrameCallbacks demo_cleared = [VideoCaptureFrame TheLiveVideoManager]
   \<and> onNewFrame (managers demo_cleared TheLiveVideoManager) = None
   \<and> geminiLiveApi (displayTicks [(640, 480, 1), (640, 480, 2), (0, 0, 3), (640, 480, 4)] demo_cleared) = []
   \<and> console (displayTicks [(640, 480, 1), (640, 480, 2), (0, 0, 3), (640, 480, 4)] demo_cleared) = []
   \<and> animationFrameCallbacks (displayTicks [(640, 480, 1), (640, 480, 2), (0, 0, 3), (640, 480, 4)] demo_cleared)
       = [VideoCaptureFrame TheLiveVideoManager]"
  using cleared_callback_drops_frames [of demo_cleared
      "[(640, 480, 1), (640, 480, 2), (0, 0, 3), (640, 480, 4)]" TheLiveVideoManager]
  by (simp add: demo_cleared_fields)

section \<open>Start followed by stop\<close>

lemma liveTracks_heap:
  "mediaStreams w' = mediaStreams w \<Longrightarrow> liveTracks k w' = liveTracks k w"
  by (simp add: liveTracks_def)

lemma liveTracks_ended:
  "mediaStreams w' = mediaStreams w @ [[\<lparr>kind = k', device = d, readyState = Ended\<rparr>]] \<Longrightarrow>
   liveTracks k w' = liveTracks k w"
  by (simp add: liveTracks_def liveTrack_def)

lemma stopTracks_last:
  "mediaStreams w = ms @ [ts] \<Longrightarrow> mediaStreams (stopTracks (length ms) w) = ms @ [map track_stop ts]"
  by (simp add: stopTracks_def)

lemma camera_start_stop:
  assumes g: "getUserMedia Videoinput (exactDevice d) w =
      Inr (newStream [\<lparr>kind = Videoinput, device = d', readyState = Live\<rparr>] w)"
  shows "\<exists>w1 w2. LiveVideoManager_startWebcam this d w = Inr w1
      \<and> LiveVideoManager_stopWebcam this w1 = Inr w2
      \<and> stream (managers w2 this) = None \<and> srcObject (videoElement w2) = None
      \<and> mediaStreams w2 = mediaStreams w @ [[\<lparr>kind = Videoinput, device = d', readyState = Ended\<rparr>]]"
proof -
  let ?t = "\<lparr>kind = Videoinput, device = d', readyState = Live\<rparr>"
  let ?w1 = "requestAnimationFrame (VideoCaptureFrame this) (afterSample this (bound this ?t w))"
  let ?w2 = "set_stream this None (set_srcObject None (stopTracks (length (mediaStreams w)) ?w1))"
  have s: "LiveVideoManager_startWebcam this d w = Inr ?w1"
    by (rule startWebcam_granted [OF g])
  have h: "stream (managers ?w1 this) = Some (length (mediaStreams w))"
    by (simp add: requestAnimationFrame_fields afterSample_fields bound_fields)
  have ms: "mediaStreams ?w1 = mediaStreams w @ [[?t]]"
    by (simp add: requestAnimationFrame_fields afterSample_fields bound_fields)
  have st: "LiveVideoManager_stopWebcam this ?w1 = Inr ?w2"
    by (rule stopWebcam_live [OF h])
  have "mediaStreams ?w2 = mediaStreams w @ [[\<lparr>kind = Videoinput, device = d', readyState = Ended\<rparr>]]"
    using stopTracks_last [OF ms] by (simp add: set_stream_def set_srcObject_def track_stop_def)
  moreover have "stream (managers ?w2 this) = None" "srcObject (videoElement ?w2) = None"
    by (simp_all add: set_stream_def set_srcObject_def)
  ultimately show ?thesis
    using s st by blast
qed

lemma screen_start_stop:
  assumes g: "displayPermission w"
  shows "\<exists>w1 w2. LiveScreenManager_startCapture this w = Inr w1
      \<and> LiveScreenManager_stopCapture this w1 = Inr w2
      \<and> stream (managers w2 this) = None \<and> srcObject (videoElement w2) = None
      \<and> mediaStreams w2 = mediaStreams w @ [[\<lparr>kind = Display, device = ''screen'', readyState = Ended\<rparr>]]"
proof -
  let ?t = "\<lparr>kind = Display, device = ''screen'', readyState = Live\<rparr>"
  let ?w1 = "requestAnimationFrame (ScreenCaptureFrame this) (afterSample this (bound this ?t w))"
  let ?w2 = "set_stream this None (set_srcObject None (stopTracks (length (mediaStreams w)) ?w1))"
  have s: "LiveScreenManager_startCapture this w = Inr ?w1"
    by (rule startCapture_granted [OF g])
  have h: "stream (managers ?w1 this) = Some (length (mediaStreams w))"
    by (simp add: requestAnimationFrame_fields afterSample_fields bound_fields)
  have ms: "mediaStreams ?w1 = mediaStreams w @ [[?t]]"
    by (simp add: requestAnimationFrame_fields afterSample_fields bound_fields)
  have st: "LiveScreenManager_stopCapture this ?w1 = Inr ?w2"
    unfolding stopCapture_eq_stopWebcam by (rule stopWebcam_live [OF h])
  have "mediaStreams ?w2 = mediaStreams w @ [[\<lparr>kind = Display, device = ''screen'', readyState = Ended\<rparr>]]"
    using stopTracks_last [OF ms] by (simp add: set_stream_def set_srcObject_def track_stop_def)
  moreover have "stream (managers ?w2 this) = None" "srcObject (videoElement ?w2) = None"
    by (simp_all add: set_stream_def set_srcObject_def)
  ultimately show ?thesis
    using s st by blast
qed

lemma connect_denied:
  "getUserMedia Audioinput (exactDevice d) w = Inl (e, w0) \<Longrightarrow>
   LiveAudioInputManager_connectMicrophone d w =
     Inl (e, console_error ''Error connecting microphone:'' w)"
  using getUserMedia_cases [of Audioinput "exactDevice d" w]
  by (auto simp add: LiveAudioInputManager_connectMicrophone_def)

lemma connect_granted:
  "getUserMedia Audioinput (exactDevice d) w = Inr (newStream [t] w) \<Longrightarrow>
   LiveAudioInputManager_connectMicrophone d w =
     Inr (w\<lparr>mediaStreams := mediaStreams w @ [[t]],
            liveAudioInputManager := (liveAudioInputManager w)\<lparr>stream := Some (length (mediaStreams w))\<rparr>,
            scriptProcessors := scriptProcessors w @
              [\<lparr>source = length (mediaStreams w), bufferSize = 4096, numberOfInputChannels = 1,
                numberOfOutputChannels = 1, toDestination = True, pending = []\<rparr>]\<rparr>)"
  by (simp add: LiveAudioInputManager_connectMicrophone_def newStream_def
      LiveAudioInputManager_processAudioStream_def)

lemma microphone_start_stop:
  assumes g: "getUserMedia Audioinput (exactDevice d) w =
      Inr (newStream [\<lparr>kind = Audioinput, device = d', readyState = Live\<rparr>] w)"
  shows "\<exists>w1 w2. LiveAudioInputManager_connectMicrophone d w = Inr w1
      \<and> LiveAudioInputManager_disconnectMicrophone w1 = Inr w2
      \<and> stream (liveAudioInputManager w2) = None
      \<and> mediaStreams w2 = mediaStreams w @ [[\<lparr>kind = Audioinput, device = d', readyState = Ended\<rparr>]]"
proof -
  let ?t = "\<lparr>kind = Audioinput, device = d', readyState = Live\<rparr>"
  let ?w1 = "w\<lparr>mediaStreams := mediaStreams w @ [[?t]],
            liveAudioInputManager := (liveAudioInputManager w)\<lparr>stream := Some (length (mediaStreams w))\<rparr>,
            scriptProcessors := scriptProcessors w @
              [\<lparr>source = length (mediaStreams w), bufferSize = 4096, numberOfInputChannels = 1,
                numberOfOutputChannels = 1, toDestination = True, pending = []\<rparr>]\<rparr>"
  let ?w2 = "(stopTracks (length (mediaStreams w)) ?w1)\<lparr>liveAudioInputManager :=
      (liveAudioInputManager ?w1)\<lparr>stream := None\<rparr>\<rparr>"
  have s: "LiveAudioInputManager_connectMicrophone d w = Inr ?w1"
    by (rule connect_granted [OF g])
  have h: "stream (liveAudioInputManager ?w1) = Some (length (mediaStreams w))"
    by simp
  have ms: "mediaStreams ?w1 = mediaStreams w @ [[?t]]"
    by simp
  have st: "LiveAudioInputManager_disconnectMicrophone ?w1 = Inr ?w2"
    by (rule disconnect_live [OF h])
  have "mediaStreams ?w2 = mediaStreams w @ [[\<lparr>kind = Audioinput, device = d', readyState = Ended\<rparr>]]"
    using stopTracks_last [OF ms] by (simp add: track_stop_def)
  moreover have "stream (liveAudioInputManager ?w2) = None"
    by simp
  ultimately show ?thesis
    using s st by blast
qed

text \<open>
  C5. For a device identifier the platform can serve (a camera it lists, permission
  granted), \<open>startWebcam(id)\<close> returns and \<open>stopWebcam()\<close> right after it returns too,
  and leaves the stream handle null, the video element without a source object, and the
  stream that the start acquired with its only track ended: the heap of streams is the one
  before the start plus that ended stream, so the number of live camera tracks is what it
  was before the start (none, on a component that had none). The same holds for the screen
  variant when the display capture is granted, and for the microphone (which has no display
  binding).
\<close>

theorem start_then_stop:
  "(permission w \<and> d \<in> set (videoinputs w) \<longrightarrow>
      (\<exists>w1 w2 d'. LiveVideoManager_startWebcam this (Some d) w = Inr w1
         \<and> LiveVideoManager_stopWebcam this w1 = Inr w2
         \<and> stream (managers w2 this) = None \<and> srcObject (videoElement w2) = None
         \<and> mediaStreams w2 = mediaStreams w @ [[\<lparr>kind = Videoinput, device = d', readyState = Ended\<rparr>]]
         \<and> liveTracks Videoinput w2 = liveTracks Videoinput w))
   \<and> (displayPermission w \<longrightarrow>
      (\<exists>w1 w2. LiveScreenManager_startCapture this w = Inr w1
         \<and> LiveScreenManager_stopCapture this w1 = Inr w2
         \<and> stream (managers w2 this) = None \<and> srcObject (videoElement w2) = None
         \<and> mediaStreams w2 = mediaStreams w @ [[\<lparr>kind = Display, device = ''screen'', readyState = Ended\<rparr>]]
         \<and> liveTracks Display w2 = liveTracks Display w))
   \<and> (permission w \<and> d \<in> set (audioinputs w) \<longrightarrow>
      (\<exists>w1 w2 d'. LiveAudioInputManager_connectMicrophone (Some d) w = Inr w1
         \<and> LiveAudioInputManager_disconnectMicrophone w1 = Inr w2
         \<and> stream (liveAudioInputManager w2) = None
         \<and> mediaStreams w2 = mediaStreams w @ [[\<lparr>kind = Audioinput, device = d', readyState = Ended\<rparr>]]
         \<and> liveTracks Audioinput w2 = liveTracks Audioinput w))"
proof (intro conjI impI)
  assume a: "permission w \<and> d \<in> set (videoinputs w)"
  then obtain d' where "getUserMedia Videoinput (exactDevice (Some d)) w =
      Inr (newStream [\<lparr>kind = Videoinput, device = d', readyState = Live\<rparr>] w)"
    using getUserMedia_valid [of d Videoinput w] by (auto simp add: inputs_def)
  from camera_start_stop [OF this, of this]
  show "\<exists>w1 w2 d'. LiveVideoManager_startWebcam this (Some d) w = Inr w1
         \<and> LiveVideoManager_stopWebcam this w1 = Inr w2
         \<and> stream (managers w2 this) = None \<and> srcObject (videoElement w2) = None
         \<and> mediaStreams w2 = mediaStreams w @ [[\<lparr>kind = Videoinput, device = d', readyState = Ended\<rparr>]]
         \<and> liveTracks Videoinput w2 = liveTracks Videoinput w"
    using liveTracks_ended by blast
next
  assume "displayPermission w"
  from screen_start_stop [OF this, of this]
  show "\<exists>w1 w2. LiveScreenManager_startCapture this w = Inr w1
         \<and> LiveScreenManager_stopCapture this w1 = Inr w2
         \<and> stream (managers w2 this) = None \<and> srcObject (videoElement w2) = None
         \<and> mediaStreams w2 = mediaStreams w @ [[\<lparr>kind = Display, device = ''screen'', readyState = Ended\<rparr>]]
         \<and> liveTracks Display w2 = liveTracks Display w"
    using liveTracks_ended by blast
next
  assume a: "permission w \<and> d \<in> set (audioinputs w)"
  then obtain d' where "getUserMedia Audioinput (exactDevice (Some d)) w =
      Inr (newStream [\<lparr>kind = Audioinput, device = d', readyState = Live\<rparr>] w)"
    using getUserMedia_valid [of d Audioinput w] by (auto simp add: inputs_def)
  from microphone_start_stop [OF this]
  show "\<exists>w1 w2 d'. LiveAudioInputManager_connectMicrophone (Some d) w = Inr w1
         \<and> LiveAudioInputManager_disconnectMicrophone w1 = Inr w2
         \<and> stream (liveAudioInputManager w2) = None
         \<and> mediaStreams w2 = mediaStreams w @ [[\<lparr>kind = Audioinput, device = d', readyState = Ended\<rparr>]]
         \<and> liveTracks Audioinput w2 = liveTracks Audioinput w"
    using liveTracks_ended by blast
qed

theorem start_then_stop_witness:
  "permission demo_page \<and> ''camB'' \<in> set (videoinputs demo_page)
   \<and> displayPermission demo_page
   \<and> (\<exists>w1 w2. LiveVideoManager_startWebcam TheLiveVideoManager (Some ''camB'') demo_page = Inr w1
         \<and> LiveVideoManager_stopWebcam TheLiveVideoManager w1 = Inr w2
         \<and> stream (managers w2 TheLiveVideoManager) = None \<and> srcObject (videoElement w2) = None
         \<and> liveTracks Videoinput w2 = 0)
   \<and> (\<exists>w1 w2. LiveScreenManager_startCapture TheLiveScreenManager demo_page = Inr w1
         \<and> LiveScreenManager_stopCapture TheLiveScreenManager w1 = Inr w2
         \<and> stream (managers w2 TheLiveScreenManager) = None \<and> srcObject (videoElement w2) = None
         \<and> liveTracks Display w2 = 0)"
proof -
  have h: "permission demo_page" "''camB'' \<in> set (videoinputs demo_page)" "displayPermission demo_page"
    by (simp_all add: demo_page_fields)
  have z: "liveTracks Videoinput demo_page = 0" "liveTracks Display demo_page = 0"
    by (simp_all add: liveTracks_def demo_page_fields)
  have c: "\<exists>w1 w2. LiveVideoManager_startWebcam TheLiveVideoManager (Some ''camB'') demo_page = Inr w1
         \<and> LiveVideoManager_stopWebcam TheLiveVideoManager w1 = Inr w2
         \<and> stream (managers w2 TheLiveVideoManager) = None \<and> srcObject (videoElement w2) = None
         \<and> liveTracks Videoinput w2 = 0"
    using start_then_stop [of demo_page "''camB''" TheLiveVideoManager] h z by metis
  have s: "\<exists>w1 w2. LiveScreenManager_startCapture TheLiveScreenManager demo_page = Inr w1
         \<and> LiveScreenManager_stopCapture TheLiveScreenManager w1 = Inr w2
         \<and> stream (managers w2 TheLiveScreenManager) = None \<and> srcObject (videoElement w2) = None
         \<and> liveTracks Display w2 = 0"
    using start_then_stop [of demo_page "''camB''" TheLiveScreenManager] h z by metis
  show ?thesis using h c s by blast
qed

section \<open>Switching devices\<close>

lemma set_stream_fields:
  "mediaStreams (set_stream this s w) = mediaStreams w"
  "stream (managers (set_stream this s w) this) = s"
  "onNewFrame (managers (set_stream this s w) m) = onNewFrame (managers w m)"
  "m \<noteq> this \<Longrightarrow> managers (set_stream this s w) m = managers w m"
  "videoElement (set_stream this s w) = videoElement w"
  "canvasElement (set_stream this s w) = canvasElement w"
  "animationFrameCallbacks (set_stream this s w) = animationFrameCallbacks w"
  "geminiLiveApi (set_stream this s w) = geminiLiveApi w"
  "console (set_stream this s w) = console w"
  "liveAudioInputManager (set_stream this s w) = liveAudioInputManager w"
  "scriptProcessors (set_stream this s w) = scriptProcessors w"
  "videoinputs (set_stream this s w) = videoinputs w"
  "audioinputs (set_stream this s w) = audioinputs w"
  "permission (set_stream this s w) = permission w"
  "displayPermission (set_stream this s w) = displayPermission w"
  by (simp_all add: set_stream_def)

lemma set_srcObject_fields:
  "mediaStreams (set_srcObject s w) = mediaStreams w"
  "managers (set_srcObject s w) = managers w"
  "srcObject (videoElement (set_srcObject s w)) = s"
  "videoWidth (videoElement (set_srcObject s w)) = videoWidth (videoElement w)"
  "videoHeight (videoElement (set_srcObject s w)) = videoHeight (videoElement w)"
  "picture (videoElement (set_srcObject s w)) = picture (videoElement w)"
  "canvasElement (set_srcObject s w) = canvasElement w"
  "animationFrameCallbacks (set_srcObject s w) = animationFrameCallbacks w"
  "geminiLiveApi (set_srcObject s w) = geminiLiveApi w"
  "console (set_srcObject s w) = console w"
  "liveAudioInputManager (set_srcObject s w) = liveAudioInputManager w"
  "scriptProcessors (set_srcObject s w) = scriptProcessors w"
  "videoinputs (set_srcObject s w) = videoinputs w"
  "audioinputs (set_srcObject s w) = audioinputs w"
  "permission (set_srcObject s w) = permission w"
  "displayPermission (set_srcObject s w) = displayPermission w"
  by (simp_all add: set_srcObject_def)

lemma stopWebcam_cases:
  "(stream (managers w this) = None \<and> LiveVideoManager_stopWebcam this w = Inr w)
   \<or> (\<exists>h. stream (managers w this) = Some h
         \<and> LiveVideoManager_stopWebcam this w =
             Inr (set_stream this None (set_srcObject None (stopTracks h w))))"
  by (cases "stream (managers w this)") (simp_all add: stopWebcam_stopped stopWebcam_live)

lemma disconnect_cases:
  "(stream (liveAudioInputManager w) = None \<and> LiveAudioInputManager_disconnectMicrophone w = Inr w)
   \<or> (\<exists>h. stream (liveAudioInputManager w) = Some h
         \<and> LiveAudioInputManager_disconnectMicrophone w =
             Inr ((stopTracks h w)\<lparr>liveAudioInputManager := (liveAudioInputManager w)\<lparr>stream := None\<rparr>\<rparr>))"
  by (cases "stream (liveAudioInputManager w)") (simp_all add: disconnect_stopped disconnect_live)

lemma stopTracks_length:
  "length (mediaStreams (stopTracks h w)) = length (mediaStreams w)"
  by (simp add: stopTracks_def)

text \<open>What stopping leaves untouched.\<close>

lemma stopWebcam_keeps:
  assumes "LiveVideoManager_stopWebcam this w = Inr w1"
  shows "inputs k w1 = inputs k w" "permission w1 = permission w"
    "animationFrameCallbacks w1 = animationFrameCallbacks w"
    "length (mediaStreams w1) = length (mediaStreams w)"
    "geminiLiveApi w1 = geminiLiveApi w" "console w1 = console w"
    "stream (managers w1 this) = None"
    "stream (managers w this) \<noteq> None \<or> srcObject (videoElement w) = None
       \<Longrightarrow> srcObject (videoElement w1) = None"
  using assms stopWebcam_cases [of w this]
  by (auto simp add: inputs_def set_stream_fields set_srcObject_fields stopTracks_fields
      stopTracks_length)

lemma disconnect_keeps:
  assumes "LiveAudioInputManager_disconnectMicrophone w = Inr w1"
  shows "inputs k w1 = inputs k w" "permission w1 = permission w"
    "scriptProcessors w1 = scriptProcessors w"
    "length (mediaStreams w1) = length (mediaStreams w)"
    "geminiLiveApi w1 = geminiLiveApi w" "console w1 = console w"
    "stream (liveAudioInputManager w1) = None"
  using assms disconnect_cases [of w]
  by (auto simp add: inputs_def stopTracks_fields stopTracks_length)

lemma update_is_stop_then_start:
  "LiveVideoManager_updateWebcamDevice this d w =
     spec_switchDevice (LiveVideoManager_stopWebcam this) (LiveVideoManager_startWebcam this) d w"
  by (simp add: LiveVideoManager_updateWebcamDevice_def spec_switchDevice_def andThen_def
      split: sum.splits)

lemma updateMic_is_stop_then_start:
  "LiveAudioInputManager_updateMicrophoneDevice d w =
     spec_switchDevice LiveAudioInputManager_disconnectMicrophone
       LiveAudioInputManager_connectMicrophone d w"
  by (simp add: LiveAudioInputManager_updateMicrophoneDevice_def spec_switchDevice_def andThen_def
      split: sum.splits)

lemma update_fails:
  assumes g: "getUserMedia Videoinput (exactDevice (Some d)) w = Inl (e, w0)"
  shows "\<exists>w1 w'. LiveVideoManager_stopWebcam this w = Inr w1
      \<and> LiveVideoManager_updateWebcamDevice this d w = Inl (e, w')
      \<and> w' = console_error ''Error starting webcam:'' w1"
proof -
  obtain w1 where s: "LiveVideoManager_stopWebcam this w = Inr w1"
    using stopWebcam_result [of this w] by blast
  have "getUserMedia Videoinput (exactDevice (Some d)) w1 = Inl (e, w1)"
    using getUserMedia_fails_elsewhere [OF g, of w1] stopWebcam_keeps(1,2) [OF s] by simp
  then have "LiveVideoManager_startWebcam this (Some d) w1 =
      Inl (e, console_error ''Error starting webcam:'' w1)"
    by (rule startWebcam_denied)
  then show ?thesis
    using s by (simp add: LiveVideoManager_updateWebcamDevice_def andThen_def)
qed

lemma updateMic_fails:
  assumes g: "getUserMedia Audioinput (exactDevice (Some d)) w = Inl (e, w0)"
  shows "\<exists>w1 w'. LiveAudioInputManager_disconnectMicrophone w = Inr w1
      \<and> LiveAudioInputManager_updateMicrophoneDevice d w = Inl (e, w')
      \<and> w' = console_error ''Error connecting microphone:'' w1"
proof -
  obtain w1 where s: "LiveAudioInputManager_disconnectMicrophone w = Inr w1"
    using disconnect_result [of w] by blast
  have "getUserMedia Audioinput (exactDevice (Some d)) w1 = Inl (e, w1)"
    using getUserMedia_fails_elsewhere [OF g, of w1] disconnect_keeps(1,2) [OF s] by simp
  then have "LiveAudioInputManager_connectMicrophone (Some d) w1 =
      Inl (e, console_error ''Error connecting microphone:'' w1)"
    by (rule connect_denied)
  then show ?thesis
    using s by (simp add: LiveAudioInputManager_updateMicrophoneDevice_def andThen_def)
qed

text \<open>
  C2. \<open>updateWebcamDevice(id)\<close> and \<open>updateMicrophoneDevice(id)\<close> complete exactly as
  \<open>stop()\<close> followed by \<open>start(id)\<close> does, for every identifier and every world. When
  the acquisition of the new device throws, the switch throws the same error to its
  caller, and the world it leaves is the stopped one: the stream handle is null, no stream
  was added to the heap, no sampling loop (no script processor, for the microphone) was
  started, nothing was delivered, and the video element has no source object. The last
  holds wherever the binding of the video element, if there was one, was this component's
  (it held a stream); the element is shared with the other video manager, whose binding
  stopping this component does not touch.
\<close>

theorem switch_is_stop_then_start:
  "LiveVideoManager_updateWebcamDevice this d w =
     spec_switchDevice (LiveVideoManager_stopWebcam this) (LiveVideoManager_startWebcam this) d w
   \<and> LiveAudioInputManager_updateMicrophoneDevice d w =
     spec_switchDevice LiveAudioInputManager_disconnectMicrophone
       LiveAudioInputManager_connectMicrophone d w
   \<and> (getUserMedia Videoinput (exactDevice (Some d)) w = Inl (e, w0) \<longrightarrow>
       (\<exists>w'. LiveVideoManager_updateWebcamDevice this d w = Inl (e, w')
          \<and> stream (managers w' this) = None
          \<and> length (mediaStreams w') = length (mediaStreams w)
          \<and> animationFrameCallbacks w' = animationFrameCallbacks w
          \<and> geminiLiveApi w' = geminiLiveApi w
          \<and> (stream (managers w this) \<noteq> None \<or> srcObject (videoElement w) = None
               \<longrightarrow> srcObject (videoElement w') = None)))
   \<and> (getUserMedia Audioinput (exactDevice (Some d)) w = Inl (e, w0) \<longrightarrow>
       (\<exists>w'. LiveAudioInputManager_updateMicrophoneDevice d w = Inl (e, w')
          \<and> stream (liveAudioInputManager w') = None
          \<and> length (mediaStreams w') = length (mediaStreams w)
          \<and> scriptProcessors w' = scriptProcessors w
          \<and> geminiLiveApi w' = geminiLiveApi w))"
proof (intro conjI impI)
  show "LiveVideoManager_updateWebcamDevice this d w =
     spec_switchDevice (LiveVideoManager_stopWebcam this) (LiveVideoManager_startWebcam this) d w"
    by (rule update_is_stop_then_start)
next
  show "LiveAudioInputManager_updateMicrophoneDevice d w =
     spec_switchDevice LiveAudioInputManager_disconnectMicrophone
       LiveAudioInputManager_connectMicrophone d w"
    by (rule updateMic_is_stop_then_start)
next
  assume g: "getUserMedia Videoinput (exactDevice (Some d)) w = Inl (e, w0)"
  from update_fails [OF g, of this] obtain w1 where
    s: "LiveVideoManager_stopWebcam this w = Inr w1" and
    u: "LiveVideoManager_updateWebcamDevice this d w =
          Inl (e, console_error ''Error starting webcam:'' w1)"
    by blast
  let ?w' = "console_error ''Error starting webcam:'' w1"
  have "stream (managers ?w' this) = None"
    "length (mediaStreams ?w') = length (mediaStreams w)"
    "animationFrameCallbacks ?w' = animationFrameCallbacks w"
    "geminiLiveApi ?w' = geminiLiveApi w"
    "stream (managers w this) \<noteq> None \<or> srcObject (videoElement w) = None
       \<longrightarrow> srcObject (videoElement ?w') = None"
    using stopWebcam_keeps [OF s] by (simp_all add: console_error_fields)
  then show "\<exists>w'. LiveVideoManager_updateWebcamDevice this d w = Inl (e, w')
          \<and> stream (managers w' this) = None
          \<and> length (mediaStreams w') = length (mediaStreams w)
          \<and> animationFrameCallbacks w' = animationFrameCallbacks w
          \<and> geminiLiveApi w' = geminiLiveApi w
          \<and> (stream (managers w this) \<noteq> None \<or> srcObject (videoElement w) = None
               \<longrightarrow> srcObject (videoElement w') = None)"
    using u by simp
next
  assume g: "getUserMedia Audioinput (exactDevice (Some d)) w = Inl (e, w0)"
  from updateMic_fails [OF g] obtain w1 where
    s: "LiveAudioInputManager_disconnectMicrophone w = Inr w1" and
    u: "LiveAudioInputManager_updateMicrophoneDevice d w =
          Inl (e, console_error ''Error connecting microphone:'' w1)"
    by blast
  let ?w' = "console_error ''Error connecting microphone:'' w1"
  have "stream (liveAudioInputManager ?w') = None"
    "length (mediaStreams ?w') = length (mediaStreams w)"
    "scriptProcessors ?w' = scriptProcessors w"
    "geminiLiveApi ?w' = geminiLiveApi w"
    using disconnect_keeps [OF s] by (simp_all add: console_error_fields)
  then show "\<exists>w'. LiveAudioInputManager_updateMicrophoneDevice d w = Inl (e, w')
          \<and> stream (liveAudioInputManager w') = None
          \<and> length (mediaStreams w') = length (mediaStreams w)
          \<and> scriptProcessors w' = scriptProcessors w
          \<and> geminiLiveApi w' = geminiLiveApi w"
    using u by simp
qed

lemma demo_camera_platform:
  "videoinputs demo_camera = [''camA'', ''camB'']"
  "audioinputs demo_camera = [''micA'']"
  "permission demo_camera"
  "displayPermission demo_camera"
  "stream (liveAudioInputManager demo_camera) = None"
  by (simp_all add: demo_camera_eq requestAnimationFrame_fields bound_fields demo_page_fields)

theorem switch_is_stop_then_start_witness:
  "getUserMedia Videoinput (exactDevice (Some ''camX'')) demo_camera
      = Inl (OverconstrainedError, demo_camera)
   \<and> getUserMedia Audioinput (exactDevice (Some ''camX'')) demo_camera
      = Inl (OverconstrainedError, demo_camera)
   \<and> stream (managers demo_camera TheLiveVideoManager) = Some 0
   \<and> (\<exists>w'. LiveVideoManager_updateWebcamDevice TheLiveVideoManager ''camX'' demo_camera
          = Inl (OverconstrainedError, w')
        \<and> stream (managers w' TheLiveVideoManager) = None
        \<and> srcObject (videoElement w') = None
        \<and> length (mediaStreams w') = 1
        \<and> animationFrameCallbacks w' = [VideoCaptureFrame TheLiveVideoManager])
   \<and> (\<exists>w'. LiveAudioInputManager_updateMicrophoneDevice ''camX'' demo_camera
          = Inl (OverconstrainedError, w')
        \<and> stream (liveAudioInputManager w') = None
        \<and> length (mediaStreams w') = 1)"
proof -
  have g: "getUserMedia Videoinput (exactDevice (Some ''camX'')) demo_camera
      = Inl (OverconstrainedError, demo_camera)"
    "getUserMedia Audioinput (exactDevice (Some ''camX'')) demo_camera
      = Inl (OverconstrainedError, demo_camera)"
    by (simp_all add: getUserMedia_def exactDevice_def inputs_def demo_camera_platform)
  have h: "stream (managers demo_camera TheLiveVideoManager) = Some 0"
    by (simp add: demo_camera_fields)
  note t = switch_is_stop_then_start [of TheLiveVideoManager "''camX''" demo_camera
        OverconstrainedError demo_camera]
  have v: "\<exists>w'. LiveVideoManager_updateWebcamDevice TheLiveVideoManager ''camX'' demo_camera
          = Inl (OverconstrainedError, w')
        \<and> stream (managers w' TheLiveVideoManager) = None
        \<and> srcObject (videoElement w') = None
        \<and> length (mediaStreams w') = 1
        \<and> animationFrameCallbacks w' = [VideoCaptureFrame TheLiveVideoManager]"
    using t [THEN conjunct2, THEN conjunct2, THEN conjunct1] g h
    by (auto simp add: demo_camera_fields)
  have a: "\<exists>w'. LiveAudioInputManager_updateMicrophoneDevice ''camX'' demo_camera
          = Inl (OverconstrainedError, w')
        \<and> stream (liveAudioInputManager w') = None
        \<and> length (mediaStreams w') = 1"
    using t [THEN conjunct2, THEN conjunct2, THEN conjunct2] g
    by (auto simp add: demo_camera_fields)
  show ?thesis
    using g h v a by blast
qed

section \<open>Live sources of a component\<close>

lemma isLive_stopped: "\<not> isLive k (map track_stop ts)"
  by (induction ts) (simp_all add: isLive_def liveTrack_def track_stop_def)

lemma liveIn_append:
  "liveIn k (ms @ [ts]) = liveIn k ms @ (if isLive k ts then [length ms] else [])"
proof -
  have "filter (\<lambda>h. isLive k ((ms @ [ts]) ! h)) [0..<length ms]
      = filter (\<lambda>h. isLive k (ms ! h)) [0..<length ms]"
    by (rule filter_cong) (simp_all add: nth_append)
  then show ?thesis
    by (simp add: liveIn_def)
qed

lemma liveIn_update:
  "h < length ms \<Longrightarrow>
   liveIn k (ms[h := map track_stop (ms ! h)]) = filter (\<lambda>x. x \<noteq> h) (liveIn k ms)"
proof -
  assume b: "h < length ms"
  have "filter (\<lambda>x. isLive k (ms[h := map track_stop (ms ! h)] ! x)) [0..<length ms]
      = filter (\<lambda>x. x \<noteq> h \<and> isLive k (ms ! x)) [0..<length ms]"
    using b by (intro filter_cong) (auto simp add: nth_list_update isLive_stopped)
  then show ?thesis
    by (simp add: liveIn_def conj_commute)
qed

lemma liveIn_bounded: "x \<in> set (liveIn k ms) \<Longrightarrow> x < length ms"
  by (simp add: liveIn_def)

lemma liveIn_distinct: "distinct (liveIn k ms)"
  by (simp add: liveIn_def)

lemma owned_iff:
  "owned k s w = (\<forall>h \<in> set (liveStreams k w). s = Some h)"
  by (simp add: owned_def filter_empty_conv)

lemma owned_None: "owned k None w = (liveStreams k w = [])"
  by (simp add: owned_def)

lemma owned_heap:
  "mediaStreams w' = mediaStreams w \<Longrightarrow> owned k s w' = owned k s w"
  by (simp add: owned_def liveStreams_def)

lemma liveStreams_heap:
  "mediaStreams w' = mediaStreams w \<Longrightarrow> liveStreams k w' = liveStreams k w"
  by (simp add: liveStreams_def)

lemma owned_at_most_one:
  assumes "owned k s w"
  shows "length (liveStreams k w) \<le> 1"
proof -
  have d: "distinct (liveStreams k w)"
    by (simp add: liveStreams_def liveIn_distinct)
  have "set (liveStreams k w) \<subseteq> (case s of None \<Rightarrow> {} | Some h \<Rightarrow> {h})"
    using assms by (auto simp add: owned_iff split: option.splits)
  then have "card (set (liveStreams k w)) \<le> card (case s of None \<Rightarrow> {} | Some h \<Rightarrow> {h})"
    by (intro card_mono) (auto split: option.splits)
  also have "\<dots> \<le> 1"
    by (simp split: option.splits)
  finally show ?thesis
    using distinct_card [OF d] by simp
qed

lemma stopTracks_owned:
  assumes "owned k (Some h) w"
  shows "liveStreams k (stopTracks h w) = []"
proof (cases "h < length (mediaStreams w)")
  case True
  have "filter (\<lambda>x. x \<noteq> h) (liveIn k (mediaStreams w)) = []"
    using assms by (auto simp add: owned_iff liveStreams_def filter_empty_conv)
  then show ?thesis
    using True by (simp add: liveStreams_def stopTracks_def liveIn_update)
next
  case False
  have "x \<notin> set (liveIn k (mediaStreams w))" for x
  proof
    assume x: "x \<in> set (liveIn k (mediaStreams w))"
    then have "x = h"
      using assms by (simp add: owned_iff liveStreams_def)
    then show False
      using False liveIn_bounded [OF x] by simp
  qed
  then have "liveIn k (mediaStreams w) = []"
    by (cases "liveIn k (mediaStreams w)") auto
  then show ?thesis
    using False by (simp add: liveStreams_def stopTracks_def)
qed

lemma stopWebcam_tears_down:
  assumes o: "owned k (stream (managers w this)) w"
  shows "\<exists>w1. LiveVideoManager_stopWebcam this w = Inr w1 \<and> liveStreams k w1 = []
      \<and> stream (managers w1 this) = None"
proof (cases "stream (managers w this)")
  case None
  then show ?thesis
    using o by (simp add: stopWebcam_stopped owned_None)
next
  case (Some h)
  have "liveStreams k (set_stream this None (set_srcObject None (stopTracks h w)))
      = liveStreams k (stopTracks h w)"
    by (rule liveStreams_heap) (simp add: set_stream_fields set_srcObject_fields)
  then show ?thesis
    using o Some by (simp add: stopWebcam_live stopTracks_owned set_stream_fields)
qed

lemma disconnect_tears_down:
  assumes o: "owned k (stream (liveAudioInputManager w)) w"
  shows "\<exists>w1. LiveAudioInputManager_disconnectMicrophone w = Inr w1 \<and> liveStreams k w1 = []
      \<and> stream (liveAudioInputManager w1) = None"
proof (cases "stream (liveAudioInputManager w)")
  case None
  then show ?thesis
    using o by (simp add: disconnect_stopped owned_None)
next
  case (Some h)
  have "liveStreams k ((stopTracks h w)\<lparr>liveAudioInputManager := (liveAudioInputManager w)\<lparr>stream := None\<rparr>\<rparr>)
      = liveStreams k (stopTracks h w)"
    by (rule liveStreams_heap) simp
  then show ?thesis
    using o Some by (simp add: disconnect_live stopTracks_owned)
qed

lemma owned_empty: "liveStreams k w = [] \<Longrightarrow> owned k s w"
  by (simp add: owned_def)

lemma startWebcam_owned:
  assumes e: "liveStreams Videoinput w = []"
  shows "owned Videoinput (stream (managers (state_of (LiveVideoManager_startWebcam this d w)) this))
      (state_of (LiveVideoManager_startWebcam this d w))"
proof -
  from getUserMedia_cases [of Videoinput "exactDevice d" w]
  show ?thesis
  proof (elim disjE exE)
    fix er
    assume "getUserMedia Videoinput (exactDevice d) w = Inl (er, w)"
    then have s: "state_of (LiveVideoManager_startWebcam this d w)
        = console_error ''Error starting webcam:'' w"
      by (simp add: startWebcam_denied state_of_def)
    have "liveStreams Videoinput (console_error ''Error starting webcam:'' w) = []"
      using e by (simp add: liveStreams_def console_error_fields)
    then show ?thesis
      unfolding s by (rule owned_empty)
  next
    fix dv
    let ?t = "\<lparr>kind = Videoinput, device = dv, readyState = Live\<rparr>"
    let ?w1 = "requestAnimationFrame (VideoCaptureFrame this) (afterSample this (bound this ?t w))"
    assume "getUserMedia Videoinput (exactDevice d) w = Inr (newStream [?t] w)"
    then have s: "state_of (LiveVideoManager_startWebcam this d w) = ?w1"
      by (simp add: startWebcam_granted state_of_def)
    have l: "liveStreams Videoinput ?w1 = [length (mediaStreams w)]"
      using e by (simp add: liveStreams_def requestAnimationFrame_fields afterSample_fields
          bound_fields liveIn_append isLive_def liveTrack_def)
    have h: "stream (managers ?w1 this) = Some (length (mediaStreams w))"
      by (simp add: requestAnimationFrame_fields afterSample_fields bound_fields)
    show ?thesis
      unfolding s by (simp add: owned_def l h)
  qed
qed

lemma startCapture_owned:
  assumes e: "liveStreams Display w = []"
  shows "owned Display (stream (managers (state_of (LiveScreenManager_startCapture this w)) this))
      (state_of (LiveScreenManager_startCapture this w))"
proof (cases "displayPermission w")
  case False
  then have s: "state_of (LiveScreenManager_startCapture this w)
      = console_error ''Error starting screen capture:'' w"
    by (simp add: startCapture_denied state_of_def)
  have "liveStreams Display (console_error ''Error starting screen capture:'' w) = []"
    using e by (simp add: liveStreams_def console_error_fields)
  then show ?thesis
    unfolding s by (rule owned_empty)
next
  case True
  let ?t = "\<lparr>kind = Display, device = ''screen'', readyState = Live\<rparr>"
  let ?w1 = "requestAnimationFrame (ScreenCaptureFrame this) (afterSample this (bound this ?t w))"
  have s: "state_of (LiveScreenManager_startCapture this w) = ?w1"
    using True by (simp add: startCapture_granted state_of_def)
  have l: "liveStreams Display ?w1 = [length (mediaStreams w)]"
    using e by (simp add: liveStreams_def requestAnimationFrame_fields afterSample_fields
        bound_fields liveIn_append isLive_def liveTrack_def)
  have h: "stream (managers ?w1 this) = Some (length (mediaStreams w))"
    by (simp add: requestAnimationFrame_fields afterSample_fields bound_fields)
  show ?thesis
    unfolding s by (simp add: owned_def l h)
qed

lemma connect_owned:
  assumes e: "liveStreams Audioinput w = []"
  shows "owned Audioinput
      (stream (liveAudioInputManager (state_of (LiveAudioInputManager_connectMicrophone d w))))
      (state_of (LiveAudioInputManager_connectMicrophone d w))"
proof -
  from getUserMedia_cases [of Audioinput "exactDevice d" w]
  show ?thesis
  proof (elim disjE exE)
    fix er
    assume "getUserMedia Audioinput (exactDevice d) w = Inl (er, w)"
    then have s: "state_of (LiveAudioInputManager_connectMicrophone d w)
        = console_error ''Error connecting microphone:'' w"
      by (simp add: connect_denied state_of_def)
    have "liveStreams Audioinput (console_error ''Error connecting microphone:'' w) = []"
      using e by (simp add: liveStreams_def console_error_fields)
    then show ?thesis
      unfolding s by (rule owned_empty)
  next
    fix dv
    let ?t = "\<lparr>kind = Audioinput, device = dv, readyState = Live\<rparr>"
    assume g: "getUserMedia Audioinput (exactDevice d) w = Inr (newStream [?t] w)"
    show ?thesis
      using e by (simp add: connect_granted [OF g] state_of_def owned_def liveStreams_def
          liveIn_append isLive_def liveTrack_def)
  qed
qed

lemma camera_step:
  assumes o: "owned Videoinput (stream (managers w this)) w"
    and g: "\<forall>d. x = Start d \<longrightarrow> stream (managers w this) = None"
  shows "owned Videoinput (stream (managers (state_of (camera_op this x w)) this))
      (state_of (camera_op this x w))"
proof (cases x)
  case (Start d)
  then have "liveStreams Videoinput w = []"
    using o g by (simp add: owned_None)
  then show ?thesis
    using Start by (simp add: startWebcam_owned)
next
  case Stop
  from stopWebcam_tears_down [OF o] obtain w1 where
    "LiveVideoManager_stopWebcam this w = Inr w1" "liveStreams Videoinput w1 = []"
    by blast
  then show ?thesis
    using Stop by (simp add: state_of_def owned_empty)
next
  case (Switch d)
  from stopWebcam_tears_down [OF o] obtain w1 where
    "LiveVideoManager_stopWebcam this w = Inr w1" "liveStreams Videoinput w1 = []"
    by blast
  then show ?thesis
    using Switch startWebcam_owned [of w1 this "Some d"]
    by (simp add: LiveVideoManager_updateWebcamDevice_def andThen_def)
qed

lemma screen_step:
  assumes o: "owned Display (stream (managers w this)) w"
    and g: "\<forall>d. x = Start d \<longrightarrow> stream (managers w this) = None"
  shows "owned Display (stream (managers (state_of (screen_op this x w)) this))
      (state_of (screen_op this x w))"
proof (cases x)
  case (Start d)
  then have "liveStreams Display w = []"
    using o g by (simp add: owned_None)
  then show ?thesis
    using Start by (simp add: startCapture_owned)
next
  case Stop
  from stopWebcam_tears_down [OF o] obtain w1 where
    "LiveVideoManager_stopWebcam this w = Inr w1" "liveStreams Display w1 = []"
    by blast
  then show ?thesis
    using Stop by (simp add: state_of_def owned_empty stopCapture_eq_stopWebcam)
next
  case (Switch d)
  then show ?thesis
    using o by (simp add: state_of_def)
qed

lemma microphone_step:
  assumes o: "owned Audioinput (stream (liveAudioInputManager w)) w"
    and g: "\<forall>d. x = Start d \<longrightarrow> stream (liveAudioInputManager w) = None"
  shows "owned Audioinput (stream (liveAudioInputManager (state_of (microphone_op x w))))
      (state_of (microphone_op x w))"
proof (cases x)
  case (Start d)
  then have "liveStreams Audioinput w = []"
    using o g by (simp add: owned_None)
  then show ?thesis
    using Start by (simp add: connect_owned)
next
  case Stop
  from disconnect_tears_down [OF o] obtain w1 where
    "LiveAudioInputManager_disconnectMicrophone w = Inr w1" "liveStreams Audioinput w1 = []"
    by blast
  then show ?thesis
    using Stop by (simp add: state_of_def owned_empty)
next
  case (Switch d)
  from disconnect_tears_down [OF o] obtain w1 where
    "LiveAudioInputManager_disconnectMicrophone w = Inr w1" "liveStreams Audioinput w1 = []"
    by blast
  then show ?thesis
    using Switch connect_owned [of w1 "Some d"]
    by (simp add: LiveAudioInputManager_updateMicrophoneDevice_def andThen_def)
qed

lemma guarded_invariant:
  assumes step: "\<And>x w. I w \<Longrightarrow> (\<forall>d. x = Start d \<longrightarrow> held w = None) \<Longrightarrow> I (state_of (f x w))"
  shows "I w \<Longrightarrow> guarded f held ops w \<Longrightarrow> I (run_ops f ops w)"
proof (induction ops arbitrary: w)
  case Nil
  then show ?case by simp
next
  case (Cons x xs)
  have g: "(\<forall>d. x = Start d \<longrightarrow> held w = None) \<and> guarded f held xs (state_of (f x w))"
    using Cons.prems(2) by (cases x) simp_all
  have "I (state_of (f x w))"
    using step [OF Cons.prems(1)] g by blast
  then have "I (run_ops f xs (state_of (f x w)))"
    using g by (intro Cons.IH) simp_all
  then show ?case by simp
qed

lemma guarded_prefix:
  "guarded f held (xs @ ys) w \<Longrightarrow> guarded f held xs w"
proof (induction xs arbitrary: w)
  case Nil
  then show ?case by simp
next
  case (Cons x xs)
  then show ?case by (cases x) simp_all
qed

text \<open>
  What holds when the caller stops before it starts. A capture component tears its stream
  down in \<open>stop\<close> and in the device switch, never in \<open>start\<close>. For a component that
  owns every live source
  of its kind (a fresh one does), and a sequence of start, stop and switch operations in
  which \<open>start\<close> is issued only while the component holds no stream, at most one source
  of its kind is live after every operation of the sequence (after every prefix \<open>ops\<close> of
  it); this is so for the camera, the screen and the microphone component. On a device switch the stop runs first and leaves no live source
  of the kind, and the new stream is acquired from that world.
\<close>

theorem one_live_source_when_start_is_guarded:
  "(owned Videoinput (stream (managers w this)) w
      \<and> guarded (camera_op this) (\<lambda>w. stream (managers w this)) (ops @ rest) w \<longrightarrow>
      length (liveStreams Videoinput (run_ops (camera_op this) ops w)) \<le> 1)
   \<and> (owned Display (stream (managers w this)) w
      \<and> guarded (screen_op this) (\<lambda>w. stream (managers w this)) (ops @ rest) w \<longrightarrow>
      length (liveStreams Display (run_ops (screen_op this) ops w)) \<le> 1)
   \<and> (owned Audioinput (stream (liveAudioInputManager w)) w
      \<and> guarded microphone_op (\<lambda>w. stream (liveAudioInputManager w)) (ops @ rest) w \<longrightarrow>
      length (liveStreams Audioinput (run_ops microphone_op ops w)) \<le> 1)
   \<and> (owned Videoinput (stream (managers w this)) w \<longrightarrow>
      (\<exists>w1. LiveVideoManager_stopWebcam this w = Inr w1 \<and> liveStreams Videoinput w1 = []
         \<and> LiveVideoManager_updateWebcamDevice this d w
             = LiveVideoManager_startWebcam this (Some d) w1))
   \<and> (owned Audioinput (stream (liveAudioInputManager w)) w \<longrightarrow>
      (\<exists>w1. LiveAudioInputManager_disconnectMicrophone w = Inr w1 \<and> liveStreams Audioinput w1 = []
         \<and> LiveAudioInputManager_updateMicrophoneDevice d w
             = LiveAudioInputManager_connectMicrophone (Some d) w1))"
proof (intro conjI impI)
  assume a: "owned Videoinput (stream (managers w this)) w
      \<and> guarded (camera_op this) (\<lambda>w. stream (managers w this)) (ops @ rest) w"
  have "owned Videoinput (stream (managers (run_ops (camera_op this) ops w) this))
      (run_ops (camera_op this) ops w)"
    using a [THEN conjunct1] guarded_prefix [OF a [THEN conjunct2]]
      guarded_invariant [where I = "\<lambda>w. owned Videoinput (stream (managers w this)) w"
        and held = "\<lambda>w. stream (managers w this)" and f = "camera_op this" and w = w and ops = ops]
      camera_step [of _ this]
    by blast
  then show "length (liveStreams Videoinput (run_ops (camera_op this) ops w)) \<le> 1"
    by (rule owned_at_most_one)
next
  assume a: "owned Display (stream (managers w this)) w
      \<and> guarded (screen_op this) (\<lambda>w. stream (managers w this)) (ops @ rest) w"
  have "owned Display (stream (managers (run_ops (screen_op this) ops w) this))
      (run_ops (screen_op this) ops w)"
    using a [THEN conjunct1] guarded_prefix [OF a [THEN conjunct2]]
      guarded_invariant [where I = "\<lambda>w. owned Display (stream (managers w this)) w"
        and held = "\<lambda>w. stream (managers w this)" and f = "screen_op this" and w = w and ops = ops]
      screen_step [of _ this]
    by blast
  then show "length (liveStreams Display (run_ops (screen_op this) ops w)) \<le> 1"
    by (rule owned_at_most_one)
next
  assume a: "owned Audioinput (stream (liveAudioInputManager w)) w
      \<and> guarded microphone_op (\<lambda>w. stream (liveAudioInputManager w)) (ops @ rest) w"
  have "owned Audioinput (stream (liveAudioInputManager (run_ops microphone_op ops w)))
      (run_ops microphone_op ops w)"
    using a [THEN conjunct1] guarded_prefix [OF a [THEN conjunct2]]
      guarded_invariant [where I = "\<lambda>w. owned Audioinput (stream (liveAudioInputManager w)) w"
        and held = "\<lambda>w. stream (liveAudioInputManager w)" and f = microphone_op
        and w = w and ops = ops]
      microphone_step
    by blast
  then show "length (liveStreams Audioinput (run_ops microphone_op ops w)) \<le> 1"
    by (rule owned_at_most_one)
next
  assume "owned Videoinput (stream (managers w this)) w"
  from stopWebcam_tears_down [OF this]
  show "\<exists>w1. LiveVideoManager_stopWebcam this w = Inr w1 \<and> liveStreams Videoinput w1 = []
         \<and> LiveVideoManager_updateWebcamDevice this d w
             = LiveVideoManager_startWebcam this (Some d) w1"
    by (auto simp add: LiveVideoManager_updateWebcamDevice_def andThen_def)
next
  assume "owned Audioinput (stream (liveAudioInputManager w)) w"
  from disconnect_tears_down [OF this]
  show "\<exists>w1. LiveAudioInputManager_disconnectMicrophone w = Inr w1 \<and> liveStreams Audioinput w1 = []
         \<and> LiveAudioInputManager_updateMicrophoneDevice d w
             = LiveAudioInputManager_connectMicrophone (Some d) w1"
    by (auto simp add: LiveAudioInputManager_updateMicrophoneDevice_def andThen_def)
qed

lemma startWebcam_exact:
  assumes "d \<in> set (videoinputs w)" and "d \<noteq> []" and "permission w"
  shows "state_of (LiveVideoManager_startWebcam this (Some d) w) =
      requestAnimationFrame (VideoCaptureFrame this)
        (afterSample this (bound this \<lparr>kind = Videoinput, device = d, readyState = Live\<rparr> w))"
    and "succeeded (LiveVideoManager_startWebcam this (Some d) w)"
proof -
  have "getUserMedia Videoinput (exactDevice (Some d)) w =
      Inr (newStream [\<lparr>kind = Videoinput, device = d, readyState = Live\<rparr>] w)"
    using assms by (simp add: getUserMedia_exact inputs_def)
  then show "state_of (LiveVideoManager_startWebcam this (Some d) w) =
      requestAnimationFrame (VideoCaptureFrame this)
        (afterSample this (bound this \<lparr>kind = Videoinput, device = d, readyState = Live\<rparr> w))"
    and "succeeded (LiveVideoManager_startWebcam this (Some d) w)"
    by (simp_all add: startWebcam_granted state_of_def succeeded_def)
qed

lemma started_fields:
  "mediaStreams (requestAnimationFrame c (afterSample this (bound this t w))) = mediaStreams w @ [[t]]"
  "videoinputs (requestAnimationFrame c (afterSample this (bound this t w))) = videoinputs w"
  "permission (requestAnimationFrame c (afterSample this (bound this t w))) = permission w"
  "displayPermission (requestAnimationFrame c (afterSample this (bound this t w))) = displayPermission w"
  "stream (managers (requestAnimationFrame c (afterSample this (bound this t w))) this)
     = Some (length (mediaStreams w))"
  "m \<noteq> this \<Longrightarrow> managers (requestAnimationFrame c (afterSample this (bound this t w))) m
     = managers w m"
  "animationFrameCallbacks (requestAnimationFrame c (afterSample this (bound this t w)))
     = animationFrameCallbacks w @ [c]"
  by (simp_all add: requestAnimationFrame_fields afterSample_fields bound_fields)

text \<open>
  C1 on the code. \<open>startWebcam\<close> assigns the stream it acquires to \<open>this.stream\<close>
  and stops nothing. On the loaded page, \<open>startWebcam('camA')\<close> directly followed by
  \<open>startWebcam('camB')\<close> leaves two live camera streams, handles 0 and 1, and the
  manager holds the second only: a \<open>stopWebcam()\<close> after them ends stream 1, and stream
  0 stays live with no handle left to stop it by.
\<close>

theorem start_start_leaves_two_live:
  "liveStreams Videoinput
     (run_ops (camera_op TheLiveVideoManager) [Start (Some ''camA''), Start (Some ''camB'')] demo_page)
     = [0, 1]
   \<and> \<not> length (liveStreams Videoinput
        (run_ops (camera_op TheLiveVideoManager) [Start (Some ''camA''), Start (Some ''camB'')]
           demo_page)) \<le> 1
   \<and> stream (managers
        (run_ops (camera_op TheLiveVideoManager) [Start (Some ''camA''), Start (Some ''camB'')]
           demo_page) TheLiveVideoManager) = Some 1
   \<and> liveStreams Videoinput
        (run_ops (camera_op TheLiveVideoManager)
           [Start (Some ''camA''), Start (Some ''camB''), Stop] demo_page)
       = [0]
   \<and> stream (managers
        (run_ops (camera_op TheLiveVideoManager)
           [Start (Some ''camA''), Start (Some ''camB''), Stop] demo_page) TheLiveVideoManager)
       = None"
proof -
  let ?a = "\<lparr>kind = Videoinput, device = ''camA'', readyState = Live\<rparr>"
  let ?b = "\<lparr>kind = Videoinput, device = ''camB'', readyState = Live\<rparr>"
  let ?w1 = "requestAnimationFrame (VideoCaptureFrame TheLiveVideoManager)
        (afterSample TheLiveVideoManager (bound TheLiveVideoManager ?a demo_page))"
  let ?w2 = "requestAnimationFrame (VideoCaptureFrame TheLiveVideoManager)
        (afterSample TheLiveVideoManager (bound TheLiveVideoManager ?b ?w1))"
  let ?w3 = "set_stream TheLiveVideoManager None (set_srcObject None (stopTracks 1 ?w2))"
  have s1: "state_of (LiveVideoManager_startWebcam TheLiveVideoManager (Some ''camA'') demo_page) = ?w1"
    by (rule startWebcam_exact) (simp_all add: demo_page_fields)
  have s2: "state_of (LiveVideoManager_startWebcam TheLiveVideoManager (Some ''camB'') ?w1) = ?w2"
    by (rule startWebcam_exact) (simp_all add: started_fields demo_page_fields)
  have r: "run_ops (camera_op TheLiveVideoManager) [Start (Some ''camA''), Start (Some ''camB'')]
      demo_page = ?w2"
    by (simp add: s1 s2)
  have m: "mediaStreams ?w2 = [[?a]] @ [[?b]]"
    by (simp add: started_fields demo_page_fields)
  have l: "liveStreams Videoinput ?w2 = [0, 1]"
    unfolding liveStreams_def m by (simp add: liveIn_def isLive_def liveTrack_def)
  have h: "stream (managers ?w2 TheLiveVideoManager) = Some 1"
    by (simp add: started_fields demo_page_fields)
  have s3: "state_of (LiveVideoManager_stopWebcam TheLiveVideoManager ?w2) = ?w3"
    by (simp only: stopWebcam_live [OF h] state_of_def sum.case)
  have r3: "run_ops (camera_op TheLiveVideoManager)
      [Start (Some ''camA''), Start (Some ''camB''), Stop] demo_page = ?w3"
    by (simp only: run_ops.simps camera_op.simps s1 s2 s3)
  have "mediaStreams (stopTracks (length [[?a]]) ?w2) = [[?a]] @ [map track_stop [?b]]"
    by (rule stopTracks_last [OF m])
  then have m3: "mediaStreams ?w3
      = [[?a], [\<lparr>kind = Videoinput, device = ''camB'', readyState = Ended\<rparr>]]"
    by (simp add: set_stream_fields set_srcObject_fields track_stop_def)
  have l3: "liveStreams Videoinput ?w3 = [0]"
    unfolding liveStreams_def m3 by (simp add: liveIn_def isLive_def liveTrack_def)
  have h3: "stream (managers ?w3 TheLiveVideoManager) = None"
    by (simp add: set_stream_fields)
  show ?thesis
    unfolding r r3 using l h l3 h3 by simp
qed

theorem one_live_source_when_start_is_guarded_witness:
  "owned Videoinput (stream (managers demo_page TheLiveVideoManager)) demo_page
   \<and> guarded (camera_op TheLiveVideoManager) (\<lambda>w. stream (managers w TheLiveVideoManager))
       [Start (Some ''camA''), Switch ''camB'', Stop] demo_page
   \<and> length (liveStreams Videoinput
       (run_ops (camera_op TheLiveVideoManager) [Start (Some ''camA''), Switch ''camB'', Stop]
          demo_page)) \<le> 1
   \<and> owned Audioinput (stream (liveAudioInputManager demo_page)) demo_page
   \<and> guarded microphone_op (\<lambda>w. stream (liveAudioInputManager w))
       [Start (Some ''micA''), Switch ''micA'', Stop] demo_page
   \<and> length (liveStreams Audioinput
       (run_ops microphone_op [Start (Some ''micA''), Switch ''micA'', Stop] demo_page)) \<le> 1"
proof -
  have o: "owned Videoinput (stream (managers demo_page TheLiveVideoManager)) demo_page"
    "owned Audioinput (stream (liveAudioInputManager demo_page)) demo_page"
    by (simp_all add: owned_def liveStreams_def liveIn_def demo_page_fields)
  have g: "guarded (camera_op TheLiveVideoManager) (\<lambda>w. stream (managers w TheLiveVideoManager))
       [Start (Some ''camA''), Switch ''camB'', Stop] demo_page"
    "guarded microphone_op (\<lambda>w. stream (liveAudioInputManager w))
       [Start (Some ''micA''), Switch ''micA'', Stop] demo_page"
    by (simp_all add: demo_page_fields)
  have c: "length (liveStreams Videoinput
       (run_ops (camera_op TheLiveVideoManager) [Start (Some ''camA''), Switch ''camB'', Stop]
          demo_page)) \<le> 1"
    using one_live_source_when_start_is_guarded [of demo_page TheLiveVideoManager
        "[Start (Some ''camA''), Switch ''camB'', Stop]" "[]"] o g
    by simp
  have a: "length (liveStreams Audioinput
       (run_ops microphone_op [Start (Some ''micA''), Switch ''micA'', Stop] demo_page)) \<le> 1"
    using one_live_source_when_start_is_guarded [of demo_page TheLiveVideoManager
        "[Start (Some ''micA''), Switch ''micA'', Stop]" "[]"] o g
    by simp
  show ?thesis
    using o g c a by blast
qed

section \<open>Sampling loops\<close>

lemma stopWebcam_state:
  "LiveVideoManager_stopWebcam this w = Inr (state_of (LiveVideoManager_stopWebcam this w))"
  using stopWebcam_result [of this w] by (auto simp add: state_of_def)

lemma update_state:
  "state_of (LiveVideoManager_updateWebcamDevice this d w)
     = state_of (LiveVideoManager_startWebcam this (Some d)
         (state_of (LiveVideoManager_stopWebcam this w)))"
  "succeeded (LiveVideoManager_updateWebcamDevice this d w)
     = succeeded (LiveVideoManager_startWebcam this (Some d)
         (state_of (LiveVideoManager_stopWebcam this w)))"
proof -
  obtain w1 where s: "LiveVideoManager_stopWebcam this w = Inr w1"
    using stopWebcam_result [of this w] by blast
  show "state_of (LiveVideoManager_updateWebcamDevice this d w)
     = state_of (LiveVideoManager_startWebcam this (Some d)
         (state_of (LiveVideoManager_stopWebcam this w)))"
    and "succeeded (LiveVideoManager_updateWebcamDevice this d w)
     = succeeded (LiveVideoManager_startWebcam this (Some d)
         (state_of (LiveVideoManager_stopWebcam this w)))"
    by (simp_all add: LiveVideoManager_updateWebcamDevice_def andThen_def s state_of_def)
qed

lemma startWebcam_queue:
  "animationFrameCallbacks (state_of (LiveVideoManager_startWebcam this d w))
     = animationFrameCallbacks w @
         (if succeeded (LiveVideoManager_startWebcam this d w) then [VideoCaptureFrame this] else [])"
  using getUserMedia_cases [of Videoinput "exactDevice d" w]
  by (auto simp add: startWebcam_denied startWebcam_granted state_of_def succeeded_def
      console_error_fields started_fields)

lemma startCapture_queue:
  "animationFrameCallbacks (state_of (LiveScreenManager_startCapture this w))
     = animationFrameCallbacks w @
         (if succeeded (LiveScreenManager_startCapture this w) then [ScreenCaptureFrame this] else [])"
  by (cases "displayPermission w")
     (simp_all add: startCapture_denied startCapture_granted state_of_def succeeded_def
      console_error_fields started_fields)

lemma stopWebcam_queue:
  "animationFrameCallbacks (state_of (LiveVideoManager_stopWebcam this w)) = animationFrameCallbacks w"
  using stopWebcam_keeps(3) [OF stopWebcam_state] .

lemma camera_op_queue:
  "animationFrameCallbacks (state_of (camera_op this x w))
     = animationFrameCallbacks w @
         (if x \<noteq> Stop \<and> succeeded (camera_op this x w) then [VideoCaptureFrame this] else [])"
  by (cases x) (simp_all add: startWebcam_queue stopWebcam_queue update_state)

lemma screen_op_queue:
  "animationFrameCallbacks (state_of (screen_op this x w))
     = animationFrameCallbacks w @
         (if x \<noteq> Stop \<and> succeeded (screen_op this x w) then [ScreenCaptureFrame this] else [])"
proof (cases x)
  case (Start d)
  then show ?thesis by (simp add: startCapture_queue)
next
  case Stop
  then show ?thesis by (simp add: stopWebcam_queue stopCapture_eq_stopWebcam)
next
  case (Switch d)
  then show ?thesis by (simp add: state_of_def succeeded_def)
qed

lemma run_ops_queue:
  assumes "\<And>x w. animationFrameCallbacks (state_of (f x w))
     = animationFrameCallbacks w @ (if x \<noteq> Stop \<and> succeeded (f x w) then [c] else [])"
  shows "animationFrameCallbacks (run_ops f ops w)
     = animationFrameCallbacks w @ replicate (successes f ops w) c"
proof (induction ops arbitrary: w)
  case Nil
  then show ?case by simp
next
  case (Cons x xs)
  show ?case
    by (cases x) (simp_all add: Cons.IH assms replicate_app_Cons_same)
qed

lemma fold_runCallback_replicate:
  "onNewFrame (managers w (closure_this c)) = Some f \<Longrightarrow>
   0 < videoWidth (videoElement w) \<Longrightarrow> 0 < videoHeight (videoElement w) \<Longrightarrow>
   geminiLiveApi (fold runCallback (replicate k c) w) =
     (f (DataURL ''image/jpeg'' (videoWidth (videoElement w)) (videoHeight (videoElement w))
          (Some (Bitmap (picture (videoElement w)) (videoWidth (videoElement w))
             (videoHeight (videoElement w))))) ^^ k) (geminiLiveApi w)"
proof (induction k arbitrary: w)
  case 0
  then show ?case by simp
next
  case (Suc k)
  let ?w1 = "runCallback c w"
  have m: "managers ?w1 = managers w" and v: "videoElement ?w1 = videoElement w"
    by (simp_all add: runCallback_eq requestAnimationFrame_fields afterSample_fields)
  have g: "geminiLiveApi ?w1 =
      f (DataURL ''image/jpeg'' (videoWidth (videoElement w)) (videoHeight (videoElement w))
          (Some (Bitmap (picture (videoElement w)) (videoWidth (videoElement w))
             (videoHeight (videoElement w))))) (geminiLiveApi w)"
    using Suc.prems by (simp add: runCallback_eq requestAnimationFrame_fields afterSample_ready)
  have "geminiLiveApi (fold runCallback (replicate k c) ?w1) =
     (f (DataURL ''image/jpeg'' (videoWidth (videoElement ?w1)) (videoHeight (videoElement ?w1))
          (Some (Bitmap (picture (videoElement ?w1)) (videoWidth (videoElement ?w1))
             (videoHeight (videoElement ?w1))))) ^^ k) (geminiLiveApi ?w1)"
    using Suc.prems by (intro Suc.IH) (simp_all add: m v)
  then show ?case
    by (simp add: v g funpow_swap1)
qed

text \<open>
  C9. No operation removes a pending sampling loop and every run of a loop registers it
  again, so a display frame leaves the pending loops as they were. Every start or switch
  that succeeds adds one loop of the component, a stop adds and removes none: after a
  sequence of operations the pending loops are those before plus one per successful start.
  With \<open>k\<close> loops of a component pending, a registered callback and a ready source, one
  display frame applies the callback \<open>k\<close> times to the same encoded frame.
\<close>

theorem sampling_loops_accumulate:
  "animationFrameCallbacks (run_ops (camera_op this) ops w)
      = animationFrameCallbacks w
          @ replicate (successes (camera_op this) ops w) (VideoCaptureFrame this)
   \<and> animationFrameCallbacks (run_ops (screen_op this) ops w)
      = animationFrameCallbacks w
          @ replicate (successes (screen_op this) ops w) (ScreenCaptureFrame this)
   \<and> animationFrameCallbacks (animationFrame w) = animationFrameCallbacks w
   \<and> (animationFrameCallbacks w = replicate k c
        \<and> onNewFrame (managers w (closure_this c)) = Some f \<and> 0 < vw \<and> 0 < vh \<longrightarrow>
      geminiLiveApi (animationFrame (videoFrame (vw, vh, p) w))
        = (f (DataURL ''image/jpeg'' vw vh (Some (Bitmap p vw vh))) ^^ k) (geminiLiveApi w))"
proof (intro conjI impI)
  show "animationFrameCallbacks (run_ops (camera_op this) ops w)
      = animationFrameCallbacks w
          @ replicate (successes (camera_op this) ops w) (VideoCaptureFrame this)"
    by (rule run_ops_queue) (rule camera_op_queue)
next
  show "animationFrameCallbacks (run_ops (screen_op this) ops w)
      = animationFrameCallbacks w
          @ replicate (successes (screen_op this) ops w) (ScreenCaptureFrame this)"
    by (rule run_ops_queue) (rule screen_op_queue)
next
  show "animationFrameCallbacks (animationFrame w) = animationFrameCallbacks w"
    by (rule animationFrame_queue)
next
  assume a: "animationFrameCallbacks w = replicate k c
        \<and> onNewFrame (managers w (closure_this c)) = Some f \<and> 0 < vw \<and> 0 < vh"
  let ?w = "(videoFrame (vw, vh, p) w)\<lparr>animationFrameCallbacks := []\<rparr>"
  have "geminiLiveApi (fold runCallback (replicate k c) ?w) =
     (f (DataURL ''image/jpeg'' (videoWidth (videoElement ?w)) (videoHeight (videoElement ?w))
          (Some (Bitmap (picture (videoElement ?w)) (videoWidth (videoElement ?w))
             (videoHeight (videoElement ?w))))) ^^ k) (geminiLiveApi ?w)"
    using a by (intro fold_runCallback_replicate) (simp_all add: videoFrame_fields videoFrame_dims)
  then show "geminiLiveApi (animationFrame (videoFrame (vw, vh, p) w))
        = (f (DataURL ''image/jpeg'' vw vh (Some (Bitmap p vw vh))) ^^ k) (geminiLiveApi w)"
    using a by (simp add: animationFrame_def videoFrame_fields videoFrame_dims)
qed

lemma afterSample_gemini_not_ready:
  "videoWidth (videoElement w) = 0 \<Longrightarrow> geminiLiveApi (afterSample this w) = geminiLiveApi w"
  by (simp add: afterSample_not_ready)

lemma stopped_fields:
  "mediaStreams (set_stream this None (set_srcObject None (stopTracks h w)))
     = mediaStreams (stopTracks h w)"
  "videoinputs (set_stream this None (set_srcObject None (stopTracks h w))) = videoinputs w"
  "permission (set_stream this None (set_srcObject None (stopTracks h w))) = permission w"
  "displayPermission (set_stream this None (set_srcObject None (stopTracks h w))) = displayPermission w"
  "animationFrameCallbacks (set_stream this None (set_srcObject None (stopTracks h w)))
     = animationFrameCallbacks w"
  "geminiLiveApi (set_stream this None (set_srcObject None (stopTracks h w))) = geminiLiveApi w"
  "onNewFrame (managers (set_stream this None (set_srcObject None (stopTracks h w))) m)
     = onNewFrame (managers w m)"
  "stream (managers (set_stream this None (set_srcObject None (stopTracks h w))) this) = None"
  "m \<noteq> this \<Longrightarrow> managers (set_stream this None (set_srcObject None (stopTracks h w))) m
     = managers w m"
  "videoWidth (videoElement (set_stream this None (set_srcObject None (stopTracks h w))))
     = videoWidth (videoElement w)"
  "srcObject (videoElement (set_stream this None (set_srcObject None (stopTracks h w)))) = None"
  by (simp_all add: set_stream_fields set_srcObject_fields stopTracks_fields)

lemma started_more_fields:
  "onNewFrame (managers (requestAnimationFrame c (afterSample this (bound this t w))) m)
     = onNewFrame (managers w m)"
  "videoWidth (videoElement (requestAnimationFrame c (afterSample this (bound this t w))))
     = videoWidth (videoElement w)"
  "srcObject (videoElement (requestAnimationFrame c (afterSample this (bound this t w))))
     = Some (length (mediaStreams w))"
  "videoWidth (videoElement w) = 0 \<Longrightarrow>
     geminiLiveApi (requestAnimationFrame c (afterSample this (bound this t w))) = geminiLiveApi w"
  by (simp_all add: requestAnimationFrame_fields afterSample_fields bound_fields
      afterSample_gemini_not_ready)

lemma demo_switched_eq:
  "demo_switched =
     requestAnimationFrame (VideoCaptureFrame TheLiveVideoManager)
       (afterSample TheLiveVideoManager
         (bound TheLiveVideoManager \<lparr>kind = Videoinput, device = ''camB'', readyState = Live\<rparr>
           (set_stream TheLiveVideoManager None (set_srcObject None (stopTracks 0
             (requestAnimationFrame (VideoCaptureFrame TheLiveVideoManager)
               (afterSample TheLiveVideoManager
                 (bound TheLiveVideoManager \<lparr>kind = Videoinput, device = ''camA'', readyState = Live\<rparr>
                    demo_page))))))))"
    (is "_ = ?w2")
  and demo_switched_successes:
  "successes (camera_op TheLiveVideoManager) [Start (Some ''camA''), Switch ''camB''] demo_page = 2"
proof -
  let ?a = "\<lparr>kind = Videoinput, device = ''camA'', readyState = Live\<rparr>"
  let ?b = "\<lparr>kind = Videoinput, device = ''camB'', readyState = Live\<rparr>"
  let ?w1 = "requestAnimationFrame (VideoCaptureFrame TheLiveVideoManager)
        (afterSample TheLiveVideoManager (bound TheLiveVideoManager ?a demo_page))"
  let ?ws = "set_stream TheLiveVideoManager None (set_srcObject None (stopTracks 0 ?w1))"
  have s1: "state_of (LiveVideoManager_startWebcam TheLiveVideoManager (Some ''camA'') demo_page) = ?w1"
    "succeeded (LiveVideoManager_startWebcam TheLiveVideoManager (Some ''camA'') demo_page)"
    by (rule startWebcam_exact; simp add: demo_page_fields)+
  have "stream (managers ?w1 TheLiveVideoManager) = Some 0"
    by (simp add: started_fields demo_page_fields)
  then have st: "state_of (LiveVideoManager_stopWebcam TheLiveVideoManager ?w1) = ?ws"
    by (simp add: stopWebcam_live state_of_def)
  have s2: "state_of (LiveVideoManager_startWebcam TheLiveVideoManager (Some ''camB'') ?ws) = ?w2"
    "succeeded (LiveVideoManager_startWebcam TheLiveVideoManager (Some ''camB'') ?ws)"
    by (rule startWebcam_exact; simp add: stopped_fields started_fields demo_page_fields)+
  show "demo_switched = ?w2"
    by (simp add: demo_switched_def s1 update_state st s2)
  show "successes (camera_op TheLiveVideoManager) [Start (Some ''camA''), Switch ''camB''] demo_page = 2"
    by (simp add: s1 update_state st s2)
qed

lemma demo_switched_fields:
  "onNewFrame (managers demo_switched m) = Some sendImageMessage"
  "geminiLiveApi demo_switched = []"
  "stream (managers demo_switched TheLiveVideoManager) = Some 1"
  "liveStreams Videoinput demo_switched = [1]"
proof -
  show "onNewFrame (managers demo_switched m) = Some sendImageMessage"
    by (simp add: demo_switched_eq started_more_fields stopped_fields demo_page_fields)
  show "geminiLiveApi demo_switched = []"
    by (simp add: demo_switched_eq started_more_fields stopped_fields demo_page_fields)
  show "stream (managers demo_switched TheLiveVideoManager) = Some 1"
    by (simp add: demo_switched_eq started_fields stopped_fields stopTracks_length demo_page_fields)
  have "mediaStreams (requestAnimationFrame (VideoCaptureFrame TheLiveVideoManager)
        (afterSample TheLiveVideoManager (bound TheLiveVideoManager
           \<lparr>kind = Videoinput, device = ''camA'', readyState = Live\<rparr> demo_page)))
      = [] @ [[\<lparr>kind = Videoinput, device = ''camA'', readyState = Live\<rparr>]]"
    by (simp add: started_fields demo_page_fields)
  from stopTracks_last [OF this]
  have "mediaStreams demo_switched
      = [[\<lparr>kind = Videoinput, device = ''camA'', readyState = Ended\<rparr>],
         [\<lparr>kind = Videoinput, device = ''camB'', readyState = Live\<rparr>]]"
    by (simp add: demo_switched_eq started_fields stopped_fields track_stop_def)
  then show "liveStreams Videoinput demo_switched = [1]"
    by (simp add: liveStreams_def liveIn_def isLive_def liveTrack_def)
qed

theorem sampling_loops_accumulate_witness:
  "successes (camera_op TheLiveVideoManager) [Start (Some ''camA''), Switch ''camB''] demo_page = 2
   \<and> animationFrameCallbacks demo_switched
       = [VideoCaptureFrame TheLiveVideoManager, VideoCaptureFrame TheLiveVideoManager]
   \<and> onNewFrame (managers demo_switched TheLiveVideoManager) = Some sendImageMessage
   \<and> geminiLiveApi (animationFrame (videoFrame (640, 480, 7) demo_switched))
       = [ImageMessage (DataURL ''image/jpeg'' 640 480 (Some (Bitmap 7 640 480))),
          ImageMessage (DataURL ''image/jpeg'' 640 480 (Some (Bitmap 7 640 480)))]"
proof -
  have "animationFrameCallbacks
        (run_ops (camera_op TheLiveVideoManager) [Start (Some ''camA''), Switch ''camB''] demo_page)
      = animationFrameCallbacks demo_page @
        replicate (successes (camera_op TheLiveVideoManager)
          [Start (Some ''camA''), Switch ''camB''] demo_page) (VideoCaptureFrame TheLiveVideoManager)"
    by (rule sampling_loops_accumulate [THEN conjunct1])
  then have q: "animationFrameCallbacks demo_switched
       = replicate (Suc (Suc 0)) (VideoCaptureFrame TheLiveVideoManager)"
    unfolding demo_switched_successes demo_switched_def [symmetric]
    by (simp add: demo_page_fields numeral_2_eq_2)
  have "geminiLiveApi (animationFrame (videoFrame (640, 480, 7) demo_switched))
       = (sendImageMessage (DataURL ''image/jpeg'' 640 480 (Some (Bitmap 7 640 480)))
           ^^ Suc (Suc 0)) (geminiLiveApi demo_switched)"
    using sampling_loops_accumulate [of TheLiveVideoManager "[]" demo_switched "Suc (Suc 0)"
        "VideoCaptureFrame TheLiveVideoManager" sendImageMessage 640 480 7,
        THEN conjunct2, THEN conjunct2, THEN conjunct2] q
    by (simp add: demo_switched_fields)
  then have "geminiLiveApi (animationFrame (videoFrame (640, 480, 7) demo_switched))
       = [ImageMessage (DataURL ''image/jpeg'' 640 480 (Some (Bitmap 7 640 480))),
          ImageMessage (DataURL ''image/jpeg'' 640 480 (Some (Bitmap 7 640 480)))]"
    by (simp add: demo_switched_fields sendImageMessage_def)
  moreover have "animationFrameCallbacks demo_switched
       = [VideoCaptureFrame TheLiveVideoManager, VideoCaptureFrame TheLiveVideoManager]"
    using q by simp
  ultimately show ?thesis
    using demo_switched_successes demo_switched_fields(1) [of TheLiveVideoManager] by blast
qed

section \<open>The two video classes side by side\<close>

lemma unlabel_fields:
  "geminiLiveApi (unlabel w) = geminiLiveApi w"
  "canvasElement (unlabel w) = canvasElement w"
  "videoElement (unlabel w) = videoElement w"
  "managers (unlabel w) = managers w"
  by (simp_all add: unlabel_def)

lemma afterSample_unlabel:
  "afterSample this (unlabel w) = unlabel (afterSample this w)"
  by (simp add: afterSample_def unlabel_def Let_def split: option.splits)

lemma requestAnimationFrame_unlabel:
  "unlabel (requestAnimationFrame c w)
     = requestAnimationFrame (VideoCaptureFrame (closure_this c)) (unlabel w)"
  by (simp add: requestAnimationFrame_def unlabel_def)

lemma runCallback_unlabel:
  "unlabel (runCallback c w) = runCallback (VideoCaptureFrame (closure_this c)) (unlabel w)"
  by (simp add: runCallback_eq requestAnimationFrame_unlabel afterSample_unlabel)

lemma fold_runCallback_unlabel:
  "unlabel (fold runCallback q w)
     = fold runCallback (map (\<lambda>c. VideoCaptureFrame (closure_this c)) q) (unlabel w)"
  by (induction q arbitrary: w) (simp_all add: runCallback_unlabel)

lemma animationFrame_unlabel:
  "unlabel (animationFrame w) = animationFrame (unlabel w)"
proof -
  have "unlabel (w\<lparr>animationFrameCallbacks := []\<rparr>) = (unlabel w)\<lparr>animationFrameCallbacks := []\<rparr>"
    by (simp add: unlabel_def)
  moreover have "animationFrameCallbacks (unlabel w)
      = map (\<lambda>c. VideoCaptureFrame (closure_this c)) (animationFrameCallbacks w)"
    by (simp add: unlabel_def)
  ultimately show ?thesis
    by (simp add: animationFrame_def fold_runCallback_unlabel)
qed

lemma videoFrame_unlabel:
  "unlabel (videoFrame d w) = videoFrame d (unlabel w)"
  by (simp add: videoFrame_def unlabel_def split: prod.splits)

lemma displayTicks_unlabel:
  "unlabel (displayTicks ds w) = displayTicks ds (unlabel w)"
  by (induction ds arbitrary: w) (simp_all add: animationFrame_unlabel videoFrame_unlabel)

lemma captureFrames_unlabel:
  "unlabel (state_of (LiveScreenManager_captureFrames this w))
     = unlabel (state_of (LiveVideoManager_captureFrames this w))"
  by (simp add: LiveScreenManager_captureFrames_def LiveVideoManager_captureFrames_def
      screen_captureFrame_eq video_captureFrame_eq state_of_def requestAnimationFrame_unlabel)

text \<open>
  C10. The sampling of the screen variant and of the camera variant differ in nothing but
  which class's closure is registered for the next frame. From every world, after
  \<open>captureFrames\<close> of either class on the same object and then any sequence of display
  ticks, the messages delivered to the transport and the canvas are the same, and so is
  the whole world once the class of the pending closures is forgotten. \<open>stopCapture\<close>
  completes exactly as \<open>stopWebcam\<close> does.
\<close>

theorem screen_variant_equals_camera_variant:
  "geminiLiveApi (displayTicks ds (state_of (LiveScreenManager_captureFrames this w)))
     = geminiLiveApi (displayTicks ds (state_of (LiveVideoManager_captureFrames this w)))
   \<and> canvasElement (displayTicks ds (state_of (LiveScreenManager_captureFrames this w)))
     = canvasElement (displayTicks ds (state_of (LiveVideoManager_captureFrames this w)))
   \<and> unlabel (displayTicks ds (state_of (LiveScreenManager_captureFrames this w)))
     = unlabel (displayTicks ds (state_of (LiveVideoManager_captureFrames this w)))
   \<and> LiveScreenManager_stopCapture this w = LiveVideoManager_stopWebcam this w"
proof -
  let ?s = "displayTicks ds (state_of (LiveScreenManager_captureFrames this w))"
  let ?v = "displayTicks ds (state_of (LiveVideoManager_captureFrames this w))"
  have u: "unlabel ?s = unlabel ?v"
    by (simp add: displayTicks_unlabel captureFrames_unlabel)
  have "geminiLiveApi (unlabel ?s) = geminiLiveApi (unlabel ?v)"
    "canvasElement (unlabel ?s) = canvasElement (unlabel ?v)"
    by (simp_all only: u)
  then have "geminiLiveApi ?s = geminiLiveApi ?v" "canvasElement ?s = canvasElement ?v"
    by (simp_all only: unlabel_fields)
  then show ?thesis
    using u by (simp add: stopCapture_eq_stopWebcam)
qed

section \<open>Audio chunks\<close>

lemma onaudioprocess_delivers:
  "onNewAudioRecordingChunk (liveAudioInputManager w) = Some f \<Longrightarrow> inputBuffer \<noteq> [] \<Longrightarrow>
   LiveAudioInputManager_onaudioprocess inputBuffer w
     = Inr (w\<lparr>geminiLiveApi := f (inputBuffer ! 0) (geminiLiveApi w)\<rparr>)"
  by (simp add: LiveAudioInputManager_onaudioprocess_def truthy_iff getChannelData_def)

lemma fire_audioprocess_delivers:
  "onNewAudioRecordingChunk (liveAudioInputManager w) = Some f \<Longrightarrow> 0 < n \<Longrightarrow>
   fire_audioprocess n c w = w\<lparr>geminiLiveApi := f c (geminiLiveApi w)\<rparr>"
  by (simp add: fire_audioprocess_def onaudioprocess_delivers reported_def)

lemma fold_fire_audioprocess:
  "onNewAudioRecordingChunk (liveAudioInputManager w) = Some f \<Longrightarrow> 0 < n \<Longrightarrow>
   geminiLiveApi (fold (fire_audioprocess n) cs w) = fold f cs (geminiLiveApi w)"
proof (induction cs arbitrary: w)
  case Nil
  then show ?case by simp
next
  case (Cons c cs)
  let ?w1 = "w\<lparr>geminiLiveApi := f c (geminiLiveApi w)\<rparr>"
  have "geminiLiveApi (fold (fire_audioprocess n) cs ?w1) = fold f cs (geminiLiveApi ?w1)"
    using Cons.prems by (intro Cons.IH) simp_all
  then show ?case
    using Cons.prems by (simp add: fire_audioprocess_delivers)
qed

lemma audioCaptured_delivers:
  assumes "i < length (scriptProcessors w)"
    and "0 < numberOfInputChannels (scriptProcessors w ! i)"
    and "onNewAudioRecordingChunk (liveAudioInputManager w) = Some f"
  shows "geminiLiveApi (audioCaptured i xs w)
     = fold f (chunksOf (bufferSize (scriptProcessors w ! i)) (pending (scriptProcessors w ! i) @ xs))
         (geminiLiveApi w)"
  using assms by (simp add: audioCaptured_def Let_def fold_fire_audioprocess)

lemma chunksOf_exact:
  "0 < n \<Longrightarrow> length c = n \<Longrightarrow> chunksOf n (c @ xs) = c # chunksOf n xs"
  by (subst chunksOf.simps) simp

lemma chunksOf_short: "length xs < n \<Longrightarrow> chunksOf n xs = []"
  by (subst chunksOf.simps) simp

lemma chunksOf_lengths: "c \<in> set (chunksOf n xs) \<Longrightarrow> length c = n"
proof (induction n xs rule: chunksOf.induct)
  case (1 n xs)
  show ?case
  proof (cases "n = 0 \<or> length xs < n")
    case True
    then have "chunksOf n xs = []"
      by (subst chunksOf.simps) simp
    then show ?thesis using "1.prems" by simp
  next
    case False
    then have e: "chunksOf n xs = take n xs # chunksOf n (drop n xs)"
      by (subst chunksOf.simps) simp
    show ?thesis
      using "1.prems" "1.IH" [OF False] False unfolding e by auto
  qed
qed

lemma chunksOf_concat:
  "concat (chunksOf n xs) = take (length (chunksOf n xs) * n) xs"
proof (induction n xs rule: chunksOf.induct)
  case (1 n xs)
  show ?case
  proof (cases "n = 0 \<or> length xs < n")
    case True
    then have "chunksOf n xs = []"
      by (subst chunksOf.simps) simp
    then show ?thesis by simp
  next
    case False
    then have e: "chunksOf n xs = take n xs # chunksOf n (drop n xs)"
      by (subst chunksOf.simps) simp
    have "take (n + length (chunksOf n (drop n xs)) * n) xs
        = take n xs @ take (length (chunksOf n (drop n xs)) * n) (drop n xs)"
      by (simp add: take_add)
    then show ?thesis
      unfolding e using "1.IH" [OF False] by simp
  qed
qed

lemma chunksOf_three:
  assumes "0 < n" "length c1 = n" "length c2 = n" "length c3 = n"
  shows "chunksOf n (c1 @ c2 @ c3) = [c1, c2, c3]"
proof -
  have "chunksOf n (c3 @ []) = c3 # chunksOf n []"
    using assms by (intro chunksOf_exact) simp_all
  moreover have "chunksOf n ([] :: 'a list) = []"
    using assms by (intro chunksOf_short) simp
  ultimately have "chunksOf n c3 = [c3]"
    by simp
  then show ?thesis
    using assms by (simp add: chunksOf_exact)
qed

text \<open>
  C8. \<open>processAudioStream\<close> creates the script processor with buffers of 4096 samples
  and one input channel. The \<open>onaudioprocess\<close> handler hands channel 0 of the event's
  input buffer to the registered callback as it is. So when the samples captured are the
  three chunks \<open>c1\<close>, \<open>c2\<close>, \<open>c3\<close> of 4096 samples each, the callback is applied to
  \<open>c1\<close>, then \<open>c2\<close>, then \<open>c3\<close>; and for any captured samples the callback is
  applied, in order, to the consecutive buffers the processor cuts, each of the configured
  length, which together are an unmodified prefix of what was captured.
\<close>

theorem audio_chunks_in_order:
  "(stream (liveAudioInputManager w) = Some s \<longrightarrow>
      LiveAudioInputManager_processAudioStream w =
        Inr (w\<lparr>scriptProcessors := scriptProcessors w @
               [\<lparr>source = s, bufferSize = 4096, numberOfInputChannels = 1,
                 numberOfOutputChannels = 1, toDestination = True, pending = []\<rparr>]\<rparr>))
   \<and> (onNewAudioRecordingChunk (liveAudioInputManager w) = Some f \<and> inputBuffer \<noteq> [] \<longrightarrow>
      LiveAudioInputManager_onaudioprocess inputBuffer w
        = Inr (w\<lparr>geminiLiveApi := f (inputBuffer ! 0) (geminiLiveApi w)\<rparr>))
   \<and> (i < length (scriptProcessors w)
        \<and> bufferSize (scriptProcessors w ! i) = 4096
        \<and> numberOfInputChannels (scriptProcessors w ! i) = 1
        \<and> pending (scriptProcessors w ! i) = []
        \<and> onNewAudioRecordingChunk (liveAudioInputManager w) = Some f
        \<and> length c1 = 4096 \<and> length c2 = 4096 \<and> length c3 = 4096 \<longrightarrow>
      geminiLiveApi (audioCaptured i (c1 @ c2 @ c3) w) = f c3 (f c2 (f c1 (geminiLiveApi w))))
   \<and> (i < length (scriptProcessors w)
        \<and> numberOfInputChannels (scriptProcessors w ! i) = 1
        \<and> onNewAudioRecordingChunk (liveAudioInputManager w) = Some f \<longrightarrow>
      geminiLiveApi (audioCaptured i xs w)
        = fold f (chunksOf (bufferSize (scriptProcessors w ! i))
                    (pending (scriptProcessors w ! i) @ xs)) (geminiLiveApi w))
   \<and> (\<forall>c \<in> set (chunksOf n xs). length c = n)
   \<and> concat (chunksOf n xs) = take (length (chunksOf n xs) * n) xs"
proof (intro conjI impI ballI)
  assume "stream (liveAudioInputManager w) = Some s"
  then show "LiveAudioInputManager_processAudioStream w =
        Inr (w\<lparr>scriptProcessors := scriptProcessors w @
               [\<lparr>source = s, bufferSize = 4096, numberOfInputChannels = 1,
                 numberOfOutputChannels = 1, toDestination = True, pending = []\<rparr>]\<rparr>)"
    by (simp add: LiveAudioInputManager_processAudioStream_def)
next
  assume "onNewAudioRecordingChunk (liveAudioInputManager w) = Some f \<and> inputBuffer \<noteq> []"
  then show "LiveAudioInputManager_onaudioprocess inputBuffer w
        = Inr (w\<lparr>geminiLiveApi := f (inputBuffer ! 0) (geminiLiveApi w)\<rparr>)"
    by (simp add: onaudioprocess_delivers)
next
  assume a: "i < length (scriptProcessors w)
        \<and> bufferSize (scriptProcessors w ! i) = 4096
        \<and> numberOfInputChannels (scriptProcessors w ! i) = 1
        \<and> pending (scriptProcessors w ! i) = []
        \<and> onNewAudioRecordingChunk (liveAudioInputManager w) = Some f
        \<and> length c1 = 4096 \<and> length c2 = 4096 \<and> length c3 = 4096"
  then have "chunksOf 4096 (c1 @ c2 @ c3) = [c1, c2, c3]"
    by (intro chunksOf_three) simp_all
  then show "geminiLiveApi (audioCaptured i (c1 @ c2 @ c3) w) = f c3 (f c2 (f c1 (geminiLiveApi w)))"
    using a by (simp add: audioCaptured_delivers)
next
  assume "i < length (scriptProcessors w)
        \<and> numberOfInputChannels (scriptProcessors w ! i) = 1
        \<and> onNewAudioRecordingChunk (liveAudioInputManager w) = Some f"
  then show "geminiLiveApi (audioCaptured i xs w)
        = fold f (chunksOf (bufferSize (scriptProcessors w ! i))
                    (pending (scriptProcessors w ! i) @ xs)) (geminiLiveApi w)"
    by (simp add: audioCaptured_delivers)
next
  fix c
  assume "c \<in> set (chunksOf n xs)"
  then show "length c = n"
    by (rule chunksOf_lengths)
next
  show "concat (chunksOf n xs) = take (length (chunksOf n xs) * n) xs"
    by (rule chunksOf_concat)
qed

lemma demo_microphone_eq:
  "demo_microphone =
     demo_page\<lparr>mediaStreams := [[\<lparr>kind = Audioinput, device = ''micA'', readyState = Live\<rparr>]],
       liveAudioInputManager := \<lparr>stream = Some 0, onNewAudioRecordingChunk = Some sendAudioMessage\<rparr>,
       scriptProcessors :=
         [\<lparr>source = 0, bufferSize = 4096, numberOfInputChannels = 1,
           numberOfOutputChannels = 1, toDestination = True, pending = []\<rparr>]\<rparr>"
proof -
  have g: "getUserMedia Audioinput (exactDevice None) demo_page =
      Inr (newStream [\<lparr>kind = Audioinput, device = ''micA'', readyState = Live\<rparr>] demo_page)"
    by (simp add: exactDevice_def getUserMedia_default [where ds = "[]"] inputs_def demo_page_fields)
  show ?thesis
    by (simp add: demo_microphone_def connect_granted [OF g] state_of_def demo_page_fields)
qed

theorem audio_chunks_in_order_witness:
  "0 < length (scriptProcessors demo_microphone)
   \<and> bufferSize (scriptProcessors demo_microphone ! 0) = 4096
   \<and> numberOfInputChannels (scriptProcessors demo_microphone ! 0) = 1
   \<and> pending (scriptProcessors demo_microphone ! 0) = []
   \<and> onNewAudioRecordingChunk (liveAudioInputManager demo_microphone) = Some sendAudioMessage
   \<and> length (replicate 4096 (1 :: sample)) = 4096
   \<and> geminiLiveApi (audioCaptured 0
        (replicate 4096 1 @ replicate 4096 2 @ replicate 4096 3) demo_microphone)
      = [AudioMessage (replicate 4096 1), AudioMessage (replicate 4096 2),
         AudioMessage (replicate 4096 3)]"
proof -
  have h: "0 < length (scriptProcessors demo_microphone)"
    "bufferSize (scriptProcessors demo_microphone ! 0) = 4096"
    "numberOfInputChannels (scriptProcessors demo_microphone ! 0) = 1"
    "pending (scriptProcessors demo_microphone ! 0) = []"
    "onNewAudioRecordingChunk (liveAudioInputManager demo_microphone) = Some sendAudioMessage"
    "geminiLiveApi demo_microphone = []"
    by (simp_all add: demo_microphone_eq demo_page_fields)
  have l: "length (replicate 4096 (1 :: sample)) = 4096" "length (replicate 4096 (2 :: sample)) = 4096"
    "length (replicate 4096 (3 :: sample)) = 4096"
    by simp_all
  have "geminiLiveApi (audioCaptured 0
        (replicate 4096 1 @ replicate 4096 2 @ replicate 4096 3) demo_microphone)
      = sendAudioMessage (replicate 4096 3) (sendAudioMessage (replicate 4096 2)
          (sendAudioMessage (replicate 4096 1) (geminiLiveApi demo_microphone)))"
    using audio_chunks_in_order [of demo_microphone 0 sendAudioMessage "[]" 0
        "replicate 4096 1" "replicate 4096 2" "replicate 4096 3" "[]" 1,
        THEN conjunct2, THEN conjunct2, THEN conjunct1] h l
    by blast
  then have "geminiLiveApi (audioCaptured 0
        (replicate 4096 1 @ replicate 4096 2 @ replicate 4096 3) demo_microphone)
      = [AudioMessage (replicate 4096 1), AudioMessage (replicate 4096 2),
         AudioMessage (replicate 4096 3)]"
    unfolding h(6) sendAudioMessage_def by simp
  then show ?thesis
    using h l by blast
qed

section \<open>The coordinator\<close>

lemma console_log_fields:
  "mediaStreams (console_log s w) = mediaStreams w"
  "managers (console_log s w) = managers w"
  "videoElement (console_log s w) = videoElement w"
  "canvasElement (console_log s w) = canvasElement w"
  "animationFrameCallbacks (console_log s w) = animationFrameCallbacks w"
  "geminiLiveApi (console_log s w) = geminiLiveApi w"
  "liveAudioInputManager (console_log s w) = liveAudioInputManager w"
  "scriptProcessors (console_log s w) = scriptProcessors w"
  "videoinputs (console_log s w) = videoinputs w"
  "audioinputs (console_log s w) = audioinputs w"
  "permission (console_log s w) = permission w"
  "displayPermission (console_log s w) = displayPermission w"
  "pendingAcquisitions (console_log s w) = pendingAcquisitions w"
  by (simp_all add: console_log_def)

lemma unawaited_fields:
  "mediaStreams (unawaited a w) = mediaStreams w"
  "managers (unawaited a w) = managers w"
  "videoElement (unawaited a w) = videoElement w"
  "animationFrameCallbacks (unawaited a w) = animationFrameCallbacks w"
  "geminiLiveApi (unawaited a w) = geminiLiveApi w"
  "pendingAcquisitions (unawaited a w) = pendingAcquisitions w @ [a]"
  by (simp_all add: unawaited_def)

lemma pendingAcquisitions_kept:
  "pendingAcquisitions (requestAnimationFrame c w) = pendingAcquisitions w"
  "pendingAcquisitions (afterSample this w) = pendingAcquisitions w"
  "pendingAcquisitions (bound this t w) = pendingAcquisitions w"
  "pendingAcquisitions (set_stream this s w) = pendingAcquisitions w"
  "pendingAcquisitions (set_srcObject s w) = pendingAcquisitions w"
  "pendingAcquisitions (stopTracks h w) = pendingAcquisitions w"
  "pendingAcquisitions (console_error e w) = pendingAcquisitions w"
  by (simp_all add: requestAnimationFrame_def afterSample_def Let_def bound_def play_def
      set_stream_def set_srcObject_def stopTracks_def console_error_def split: option.splits)

lemma reported_Inr: "reported (Inr w) = w"
  by (simp add: reported_def)

lemma reported_succeeded: "succeeded c \<Longrightarrow> reported c = state_of c"
  by (cases c) (simp_all add: reported_def state_of_def succeeded_def)

text \<open>
  An un-awaited start whose request is answered before anything else happens is the
  awaited start.
\<close>

lemma settle_at_once:
  assumes "pendingAcquisitions w = []"
  shows "settle 0 (unawaited a w) = reported (continuation a w)"
    and "settle 0 (console_log s (unawaited a w)) = reported (continuation a (console_log s w))"
proof -
  have e: "w\<lparr>pendingAcquisitions := []\<rparr> = w"
    using assms by (cases w) simp
  then have "(unawaited a w)\<lparr>pendingAcquisitions := []\<rparr> = w"
    by (simp add: unawaited_def)
  then show "settle 0 (unawaited a w) = reported (continuation a w)"
    using assms by (simp add: settle_def unawaited_fields)
  have "(console_log s (unawaited a w))\<lparr>pendingAcquisitions := []\<rparr>
      = console_log s (w\<lparr>pendingAcquisitions := []\<rparr>)"
    by (simp add: unawaited_def console_log_def)
  then have "(console_log s (unawaited a w))\<lparr>pendingAcquisitions := []\<rparr> = console_log s w"
    by (simp only: e)
  then show "settle 0 (console_log s (unawaited a w)) = reported (continuation a (console_log s w))"
    using assms by (simp add: settle_def unawaited_fields console_log_fields)
qed

text \<open>
  The two buttons do stop the other source first: the stop of the other manager returns
  a world in which it holds no stream, and the request for the new source is issued from
  that world. The stop reaches only a stream that has arrived: a request of the other
  manager that is still pending is not touched by it.
\<close>

lemma camera_button_stops_screen_first:
  "\<exists>w1. LiveScreenManager_stopCapture TheLiveScreenManager w = Inr w1
      \<and> stream (managers w1 TheLiveScreenManager) = None
      \<and> pendingAcquisitions w1 = pendingAcquisitions w
      \<and> handler CameraBtnClick w
          = console_log ''cameraBtnClick'' (unawaited (StartWebcamPending TheLiveVideoManager None) w1)"
proof -
  obtain w1 where s: "LiveVideoManager_stopWebcam TheLiveScreenManager w = Inr w1"
    and n: "stream (managers w1 TheLiveScreenManager) = None"
    using stopWebcam_result [of TheLiveScreenManager w] by blast
  have p: "pendingAcquisitions w1 = pendingAcquisitions w"
    using s stopWebcam_cases [of w TheLiveScreenManager] by (auto simp add: pendingAcquisitions_kept)
  have "handler CameraBtnClick w
      = console_log ''cameraBtnClick'' (unawaited (StartWebcamPending TheLiveVideoManager None) w1)"
    by (simp add: cameraBtnClick_def startCameraCapture_def stopCapture_eq_stopWebcam s
        andThen_def reported_Inr)
  then show ?thesis
    using s n p by (simp add: stopCapture_eq_stopWebcam)
qed

lemma screen_button_stops_camera_first:
  "\<exists>w1. LiveVideoManager_stopWebcam TheLiveVideoManager w = Inr w1
      \<and> stream (managers w1 TheLiveVideoManager) = None
      \<and> pendingAcquisitions w1 = pendingAcquisitions w
      \<and> handler ScreenShareBtnClick w
          = console_log ''screenShareBtnClick''
              (unawaited (StartCapturePending TheLiveScreenManager) w1)"
proof -
  obtain w1 where s: "LiveVideoManager_stopWebcam TheLiveVideoManager w = Inr w1"
    and n: "stream (managers w1 TheLiveVideoManager) = None"
    using stopWebcam_result [of TheLiveVideoManager w] by blast
  have p: "pendingAcquisitions w1 = pendingAcquisitions w"
    using s stopWebcam_cases [of w TheLiveVideoManager] by (auto simp add: pendingAcquisitions_kept)
  have "handler ScreenShareBtnClick w
      = console_log ''screenShareBtnClick''
          (unawaited (StartCapturePending TheLiveScreenManager) w1)"
    by (simp add: screenShareBtnClick_def startScreenCapture_def s andThen_def reported_Inr)
  then show ?thesis
    using s n p by simp
qed

lemma camera_click_when_screen_stopped:
  "stream (managers w TheLiveScreenManager) = None \<Longrightarrow>
   handler CameraBtnClick w
     = console_log ''cameraBtnClick'' (unawaited (StartWebcamPending TheLiveVideoManager None) w)"
  by (simp add: cameraBtnClick_def startCameraCapture_def stopCapture_eq_stopWebcam
      stopWebcam_stopped andThen_def reported_Inr)

lemma screen_click_when_camera_stopped:
  "stream (managers w TheLiveVideoManager) = None \<Longrightarrow>
   handler ScreenShareBtnClick w
     = console_log ''screenShareBtnClick'' (unawaited (StartCapturePending TheLiveScreenManager) w)"
  by (simp add: screenShareBtnClick_def startScreenCapture_def stopWebcam_stopped andThen_def
      reported_Inr)

lemma screen_click_when_camera_live:
  "stream (managers w TheLiveVideoManager) = Some h \<Longrightarrow>
   handler ScreenShareBtnClick w
     = console_log ''screenShareBtnClick'' (unawaited (StartCapturePending TheLiveScreenManager)
         (set_stream TheLiveVideoManager None (set_srcObject None (stopTracks h w))))"
  by (simp add: screenShareBtnClick_def startScreenCapture_def stopWebcam_live andThen_def
      reported_Inr)

lemma camera_selected_when_camera_stopped:
  "stream (managers w TheLiveVideoManager) = None \<Longrightarrow>
   handler (NewCameraSelected v) w
     = unawaited (StartWebcamPending TheLiveVideoManager (Some v))
         (console_log ''newCameraSelected '' w)"
  by (simp add: newCameraSelected_def Let_def unawaited_updateWebcamDevice_def
      stopWebcam_stopped console_log_fields reported_Inr)

lemma startWebcam_default:
  assumes "videoinputs w = d # ds" and "permission w"
  shows "reported (LiveVideoManager_startWebcam this None w) =
      requestAnimationFrame (VideoCaptureFrame this)
        (afterSample this (bound this \<lparr>kind = Videoinput, device = d, readyState = Live\<rparr> w))"
proof -
  have "getUserMedia Videoinput (exactDevice None) w =
      Inr (newStream [\<lparr>kind = Videoinput, device = d, readyState = Live\<rparr>] w)"
    using assms by (simp add: exactDevice_def getUserMedia_default [where ds = ds] inputs_def)
  then show ?thesis
    by (simp add: startWebcam_granted reported_Inr)
qed

lemma startWebcam_listed:
  assumes "d \<in> set (videoinputs w)" and "d \<noteq> []" and "permission w"
  shows "reported (LiveVideoManager_startWebcam this (Some d) w) =
      requestAnimationFrame (VideoCaptureFrame this)
        (afterSample this (bound this \<lparr>kind = Videoinput, device = d, readyState = Live\<rparr> w))"
  using startWebcam_exact [OF assms, of this] by (simp add: reported_succeeded)

lemma demo_shared_then_selected_eq:
  "demo_shared_then_selected =
     requestAnimationFrame (VideoCaptureFrame TheLiveVideoManager)
       (afterSample TheLiveVideoManager
         (bound TheLiveVideoManager \<lparr>kind = Videoinput, device = ''camB'', readyState = Live\<rparr>
           (console_log ''newCameraSelected ''
             (requestAnimationFrame (ScreenCaptureFrame TheLiveScreenManager)
               (afterSample TheLiveScreenManager
                 (bound TheLiveScreenManager
                    \<lparr>kind = Display, device = ''screen'', readyState = Live\<rparr>
                    (console_log ''screenShareBtnClick'' demo_page)))))))"
proof -
  let ?d = "\<lparr>kind = Display, device = ''screen'', readyState = Live\<rparr>"
  let ?b = "\<lparr>kind = Videoinput, device = ''camB'', readyState = Live\<rparr>"
  let ?p1 = "console_log ''screenShareBtnClick'' demo_page"
  let ?s2 = "requestAnimationFrame (ScreenCaptureFrame TheLiveScreenManager)
      (afterSample TheLiveScreenManager (bound TheLiveScreenManager ?d ?p1))"
  let ?p3 = "console_log ''newCameraSelected '' ?s2"
  let ?s4 = "requestAnimationFrame (VideoCaptureFrame TheLiveVideoManager)
      (afterSample TheLiveVideoManager (bound TheLiveVideoManager ?b ?p3))"
  have e1: "handler ScreenShareBtnClick demo_page
      = console_log ''screenShareBtnClick''
          (unawaited (StartCapturePending TheLiveScreenManager) demo_page)"
    by (rule screen_click_when_camera_stopped) (simp add: demo_page_fields)
  have e2: "settle 0 (console_log ''screenShareBtnClick''
          (unawaited (StartCapturePending TheLiveScreenManager) demo_page)) = ?s2"
    by (simp add: settle_at_once(2) demo_page_fields startCapture_granted console_log_fields
        reported_Inr)
  have e3: "handler (NewCameraSelected ''camB'') ?s2
      = unawaited (StartWebcamPending TheLiveVideoManager (Some ''camB'')) ?p3"
    by (rule camera_selected_when_camera_stopped)
       (simp add: started_fields console_log_fields demo_page_fields)
  have "reported (LiveVideoManager_startWebcam TheLiveVideoManager (Some ''camB'') ?p3) = ?s4"
    by (rule startWebcam_listed)
       (simp_all add: started_fields console_log_fields demo_page_fields)
  then have e4: "settle 0 (unawaited (StartWebcamPending TheLiveVideoManager (Some ''camB'')) ?p3) = ?s4"
    by (simp add: settle_at_once(1) pendingAcquisitions_kept console_log_fields demo_page_fields)
  show ?thesis
    unfolding demo_shared_then_selected_def handler.simps(5) e1 e2 e3 e4 ..
qed

text \<open>
  C4 on the code: the screen share button followed by the selection of a camera in the
  camera list, each request answered before the next event. \<open>newCameraSelected\<close>
  switches the camera manager's device and never stops the screen manager, so the page
  reaches a world in which the screen manager holds stream 0 and the camera manager holds
  stream 1, both with a live track, the video element is bound to the camera's stream and
  two sampling loops are pending.
\<close>

theorem camera_selection_leaves_screen_live:
  "reachable demo_page demo_shared_then_selected
   \<and> stream (managers demo_shared_then_selected TheLiveScreenManager) = Some 0
   \<and> stream (managers demo_shared_then_selected TheLiveVideoManager) = Some 1
   \<and> liveStreams Display demo_shared_then_selected = [0]
   \<and> liveStreams Videoinput demo_shared_then_selected = [1]
   \<and> srcObject (videoElement demo_shared_then_selected) = Some 1
   \<and> animationFrameCallbacks demo_shared_then_selected
       = [ScreenCaptureFrame TheLiveScreenManager, VideoCaptureFrame TheLiveVideoManager]"
proof -
  have r: "reachable demo_page demo_shared_then_selected"
    unfolding demo_shared_then_selected_def
    by (intro reachable.step reachable.start)
  have m: "mediaStreams demo_shared_then_selected
      = [[\<lparr>kind = Display, device = ''screen'', readyState = Live\<rparr>],
         [\<lparr>kind = Videoinput, device = ''camB'', readyState = Live\<rparr>]]"
    by (simp add: demo_shared_then_selected_eq started_fields console_log_fields demo_page_fields)
  have l: "liveStreams Display demo_shared_then_selected = [0]"
    "liveStreams Videoinput demo_shared_then_selected = [1]"
    by (simp_all add: liveStreams_def m liveIn_def isLive_def liveTrack_def)
  have s: "stream (managers demo_shared_then_selected TheLiveScreenManager) = Some 0"
    "stream (managers demo_shared_then_selected TheLiveVideoManager) = Some 1"
    "srcObject (videoElement demo_shared_then_selected) = Some 1"
    "animationFrameCallbacks demo_shared_then_selected
       = [ScreenCaptureFrame TheLiveScreenManager, VideoCaptureFrame TheLiveVideoManager]"
    by (simp_all add: demo_shared_then_selected_eq started_fields started_more_fields
        console_log_fields demo_page_fields)
  show ?thesis
    using r l s by blast
qed

text \<open>
  The stop of the other source also misses a request that is still pending: with the
  camera button and then the screen share button pressed before the camera request is
  answered, the stop of the camera finds no stream, and once both requests are answered
  the camera manager holds stream 0 and the screen manager stream 1, both live.
\<close>

lemma pending_request_escapes_the_stop:
  "reachable demo_page demo_both_pending
   \<and> stream (managers demo_both_pending TheLiveVideoManager) = Some 0
   \<and> stream (managers demo_both_pending TheLiveScreenManager) = Some 1
   \<and> liveStreams Videoinput demo_both_pending = [0]
   \<and> liveStreams Display demo_both_pending = [1]"
proof -
  let ?a = "\<lparr>kind = Videoinput, device = ''camA'', readyState = Live\<rparr>"
  let ?d = "\<lparr>kind = Display, device = ''screen'', readyState = Live\<rparr>"
  let ?A = "StartWebcamPending TheLiveVideoManager None"
  let ?B = "StartCapturePending TheLiveScreenManager"
  let ?r1 = "console_log ''cameraBtnClick'' (unawaited ?A demo_page)"
  let ?r2 = "console_log ''screenShareBtnClick'' (unawaited ?B ?r1)"
  let ?r3 = "requestAnimationFrame (VideoCaptureFrame TheLiveVideoManager)
      (afterSample TheLiveVideoManager
        (bound TheLiveVideoManager ?a (?r2\<lparr>pendingAcquisitions := [?B]\<rparr>)))"
  let ?r4 = "requestAnimationFrame (ScreenCaptureFrame TheLiveScreenManager)
      (afterSample TheLiveScreenManager
        (bound TheLiveScreenManager ?d (?r3\<lparr>pendingAcquisitions := []\<rparr>)))"
  have e1: "handler CameraBtnClick demo_page = ?r1"
    by (rule camera_click_when_screen_stopped) (simp add: demo_page_fields)
  have e2: "handler ScreenShareBtnClick ?r1 = ?r2"
    by (rule screen_click_when_camera_stopped)
       (simp add: console_log_fields unawaited_fields demo_page_fields)
  have p2: "pendingAcquisitions ?r2 = [?A, ?B]"
    by (simp add: console_log_fields unawaited_fields demo_page_fields)
  have "reported (LiveVideoManager_startWebcam TheLiveVideoManager None
      (?r2\<lparr>pendingAcquisitions := [?B]\<rparr>)) = ?r3"
    by (rule startWebcam_default [where ds = "[''camB'']"])
       (simp_all add: console_log_fields unawaited_def demo_page_fields)
  then have e3: "settle 0 ?r2 = ?r3"
    by (simp add: settle_def p2)
  have p3: "pendingAcquisitions ?r3 = [?B]"
    by (simp add: pendingAcquisitions_kept)
  have "displayPermission (?r3\<lparr>pendingAcquisitions := []\<rparr>)"
    by (simp add: started_fields console_log_fields unawaited_def demo_page_fields)
  then have "reported (LiveScreenManager_startCapture TheLiveScreenManager
      (?r3\<lparr>pendingAcquisitions := []\<rparr>)) = ?r4"
    by (simp add: startCapture_granted reported_Inr)
  then have e4: "settle 0 ?r3 = ?r4"
    by (simp add: settle_def p3)
  have eq: "demo_both_pending = ?r4"
    unfolding demo_both_pending_def handler.simps(5) e1 e2 e3 e4 ..
  have r: "reachable demo_page demo_both_pending"
    unfolding demo_both_pending_def by (intro reachable.step reachable.start)
  have m: "mediaStreams demo_both_pending = [[?a], [?d]]"
    by (simp add: eq started_fields console_log_fields unawaited_def demo_page_fields)
  have l: "liveStreams Videoinput demo_both_pending = [0]"
    "liveStreams Display demo_both_pending = [1]"
    by (simp_all add: liveStreams_def m liveIn_def isLive_def liveTrack_def)
  have s: "stream (managers demo_both_pending TheLiveVideoManager) = Some 0"
    "stream (managers demo_both_pending TheLiveScreenManager) = Some 1"
    by (simp_all add: eq started_fields console_log_fields unawaited_def demo_page_fields)
  show ?thesis
    using r l s by blast
qed

text \<open>
  The application issues a start on a camera manager that holds a stream: the camera
  button pressed twice, each request answered. Two camera streams are live and the
  manager holds the second; the screen share button then stops the second only, and the
  first stays live beside the screen stream, held by nobody.
\<close>

lemma camera_button_twice_leaves_two_live:
  "reachable demo_page demo_camera_twice
   \<and> liveStreams Videoinput demo_camera_twice = [0, 1]
   \<and> stream (managers demo_camera_twice TheLiveVideoManager) = Some 1
   \<and> reachable demo_page demo_camera_twice_then_screen
   \<and> liveStreams Videoinput demo_camera_twice_then_screen = [0]
   \<and> stream (managers demo_camera_twice_then_screen TheLiveVideoManager) = None
   \<and> liveStreams Display demo_camera_twice_then_screen = [2]"
proof -
  let ?a = "\<lparr>kind = Videoinput, device = ''camA'', readyState = Live\<rparr>"
  let ?d = "\<lparr>kind = Display, device = ''screen'', readyState = Live\<rparr>"
  let ?A = "StartWebcamPending TheLiveVideoManager None"
  let ?B = "StartCapturePending TheLiveScreenManager"
  let ?q1 = "console_log ''cameraBtnClick'' demo_page"
  let ?c2 = "requestAnimationFrame (VideoCaptureFrame TheLiveVideoManager)
      (afterSample TheLiveVideoManager (bound TheLiveVideoManager ?a ?q1))"
  let ?q3 = "console_log ''cameraBtnClick'' ?c2"
  let ?c4 = "requestAnimationFrame (VideoCaptureFrame TheLiveVideoManager)
      (afterSample TheLiveVideoManager (bound TheLiveVideoManager ?a ?q3))"
  let ?st = "set_stream TheLiveVideoManager None (set_srcObject None (stopTracks 1 ?c4))"
  let ?q5 = "console_log ''screenShareBtnClick'' ?st"
  let ?c6 = "requestAnimationFrame (ScreenCaptureFrame TheLiveScreenManager)
      (afterSample TheLiveScreenManager (bound TheLiveScreenManager ?d ?q5))"
  have e1: "handler CameraBtnClick demo_page = console_log ''cameraBtnClick'' (unawaited ?A demo_page)"
    by (rule camera_click_when_screen_stopped) (simp add: demo_page_fields)
  have "reported (LiveVideoManager_startWebcam TheLiveVideoManager None ?q1) = ?c2"
    by (rule startWebcam_default [where ds = "[''camB'']"])
       (simp_all add: console_log_fields demo_page_fields)
  then have e2: "settle 0 (console_log ''cameraBtnClick'' (unawaited ?A demo_page)) = ?c2"
    by (simp add: settle_at_once(2) demo_page_fields)
  have e3: "handler CameraBtnClick ?c2 = console_log ''cameraBtnClick'' (unawaited ?A ?c2)"
    by (rule camera_click_when_screen_stopped)
       (simp add: started_fields console_log_fields demo_page_fields)
  have p2: "pendingAcquisitions ?c2 = []"
    by (simp add: pendingAcquisitions_kept console_log_fields demo_page_fields)
  have "reported (LiveVideoManager_startWebcam TheLiveVideoManager None ?q3) = ?c4"
    by (rule startWebcam_default [where ds = "[''camB'']"])
       (simp_all add: started_fields console_log_fields demo_page_fields)
  then have e4: "settle 0 (console_log ''cameraBtnClick'' (unawaited ?A ?c2)) = ?c4"
    by (simp add: settle_at_once(2) [OF p2])
  have twice: "demo_camera_twice = ?c4"
    unfolding demo_camera_twice_def handler.simps(5) e1 e2 e3 e4 ..
  have m4: "mediaStreams ?c4 = [[?a]] @ [[?a]]"
    by (simp add: started_fields console_log_fields demo_page_fields)
  have h4: "stream (managers ?c4 TheLiveVideoManager) = Some 1"
    by (simp add: started_fields console_log_fields demo_page_fields)
  have e5: "handler ScreenShareBtnClick ?c4 = console_log ''screenShareBtnClick'' (unawaited ?B ?st)"
    by (rule screen_click_when_camera_live [OF h4])
  have p4: "pendingAcquisitions ?st = []"
    by (simp add: pendingAcquisitions_kept console_log_fields demo_page_fields)
  have "displayPermission ?q5"
    by (simp add: console_log_fields stopped_fields started_fields demo_page_fields)
  then have x: "reported (LiveScreenManager_startCapture TheLiveScreenManager ?q5) = ?c6"
    by (simp only: startCapture_granted reported_Inr)
  have e6: "settle 0 (console_log ''screenShareBtnClick'' (unawaited ?B ?st)) = ?c6"
    by (simp only: settle_at_once(2) [OF p4] continuation.simps x)
  have then_screen: "demo_camera_twice_then_screen = ?c6"
    unfolding demo_camera_twice_then_screen_def twice handler.simps(5) e5 e6 ..
  have "mediaStreams (stopTracks (length [[?a]]) ?c4) = [[?a]] @ [map track_stop [?a]]"
    by (rule stopTracks_last [OF m4])
  then have m6: "mediaStreams ?c6
      = [[?a], [\<lparr>kind = Videoinput, device = ''camA'', readyState = Ended\<rparr>], [?d]]"
    by (simp add: started_fields console_log_fields stopped_fields track_stop_def)
  have l4: "liveStreams Videoinput ?c4 = [0, 1]"
    unfolding liveStreams_def m4 by (simp add: liveIn_def isLive_def liveTrack_def)
  have l6: "liveStreams Videoinput ?c6 = [0]" "liveStreams Display ?c6 = [2]"
    unfolding liveStreams_def m6 by (simp_all add: liveIn_def isLive_def liveTrack_def)
  have h6: "stream (managers ?c6 TheLiveVideoManager) = None"
    by (simp add: started_fields console_log_fields stopped_fields)
  have r1: "reachable demo_page demo_camera_twice"
    unfolding demo_camera_twice_def by (intro reachable.step reachable.start)
  then have r2: "reachable demo_page demo_camera_twice_then_screen"
    unfolding demo_camera_twice_then_screen_def by (intro reachable.step)
  show ?thesis
    unfolding twice then_screen
    using r1 [unfolded twice] r2 [unfolded then_screen] l4 h4 l6 h6 by blast
qed

end
